theory Spec2Isabelle
  imports Main "HOL-Library.Sublist"
begin

text \<open>
  A shallow embedding of the two executors of the repository, \<open>command_executor_ssh\<close>
  (a shell command per host) and \<open>command_executor_postgresql\<close> (an SQL statement per
  database of a host), with \<open>common/getter.py\<close> and \<open>common/logger.py\<close>.

  A Python function that may raise returns a sum: \<open>Inl\<close> carries the message of the
  exception, \<open>Inr\<close> the value returned. What lies outside the program is a parameter of
  the model: the configuration database, whether the log database opens, \<open>connect\<close> of
  the SSH library and the answers of an open session, the template engine, and the
  library functions \<open>json.loads\<close>, \<open>shlex.quote\<close>, \<open>int\<close> and the path operations.
  The statements sent to the two SQLite databases are taken to succeed once the database
  is open, and what the program prints on the console is left out, except for the status
  word of \<open>print_pg_result\<close>. The copy of the SQL variant under \<open>EXECUTOR/\<close> has the same
  control flow and the same codes; its runner also keeps the standard output in its result.
\<close>

section \<open>Python strings and values\<close>

text \<open>
  A Python \<open>str\<close> is modelled as a \<open>string\<close>: one \<open>char\<close> per code point, for the
  code points below 256. Every pattern the classifiers look for is lower-case ASCII, and
  no code point outside ASCII lower-cases to an ASCII letter of these patterns, so
  \<open>lower\<close> only has to map \<open>A\<close>..\<open>Z\<close> (code points 65..90) to \<open>a\<close>..\<open>z\<close>: adding 32,
  which for these code points is setting bit 5.
\<close>

definition lower_char :: "char \<Rightarrow> char" where
  "lower_char c =
     (let n = (of_char c :: nat) in
      if 65 \<le> n \<and> n \<le> 90
      then Char (digit0 c) (digit1 c) (digit2 c) (digit3 c) (digit4 c) True (digit6 c) (digit7 c)
      else c)"

definition lower :: "string \<Rightarrow> string" where
  "lower s = map lower_char s"

text \<open>\<open>str_in pat s\<close> is Python's \<open>pat in s\<close>: \<open>pat\<close> occurs as a contiguous piece of \<open>s\<close>.\<close>

fun str_in :: "string \<Rightarrow> string \<Rightarrow> bool" where
  "str_in pat [] = (pat = [])"
| "str_in pat (c # cs) = (prefix pat (c # cs) \<or> str_in pat cs)"

text \<open>
  \<open>str.strip()\<close> removes the white space at both ends. The white-space code points
  below 256 are 9..13, 28..32, 133 and 160.
\<close>

definition is_space :: "char \<Rightarrow> bool" where
  "is_space c =
     (let n = (of_char c :: nat) in (9 \<le> n \<and> n \<le> 13) \<or> (28 \<le> n \<and> n \<le> 32) \<or> n = 133 \<or> n = 160)"

definition strip :: "string \<Rightarrow> string" where
  "strip s = rev (dropWhile is_space (rev (dropWhile is_space s)))"

text \<open>\<open>s.rstrip(';')\<close>: every trailing semicolon is removed.\<close>

definition rstrip_semicolon :: "string \<Rightarrow> string" where
  "rstrip_semicolon s = rev (dropWhile (\<lambda>c. c = CHR '';'') (rev s))"

text \<open>
  \<open>str.splitlines()\<close>: the line boundaries below 256 are LF, CR, CR LF, VT, FF, FS, GS,
  RS and NEL; the boundaries are dropped and no empty last line is produced.
\<close>

definition is_linebreak :: "char \<Rightarrow> bool" where
  "is_linebreak c =
     (let n = (of_char c :: nat) in (10 \<le> n \<and> n \<le> 13) \<or> (28 \<le> n \<and> n \<le> 30) \<or> n = 133)"

fun splitlines_from :: "string \<Rightarrow> string \<Rightarrow> string list" where
  "splitlines_from cur [] = (if cur = [] then [] else [rev cur])"
| "splitlines_from cur [c] = (if is_linebreak c then [rev cur] else [rev (c # cur)])"
| "splitlines_from cur (c # d # cs) =
     (if c = CHR 0x0D \<and> d = CHR 0x0A then rev cur # splitlines_from [] cs
      else if is_linebreak c then rev cur # splitlines_from [] (d # cs)
      else splitlines_from (c # cur) (d # cs))"

definition splitlines :: "string \<Rightarrow> string list" where
  "splitlines s = splitlines_from [] s"

text \<open>\<open>str(n)\<close> for an integer: its decimal digits, with a minus sign when negative.\<close>

definition digit_char :: "nat \<Rightarrow> char" where
  "digit_char d = ''0123456789'' ! d"

function str_nat :: "nat \<Rightarrow> string" where
  "str_nat n = (if n < 10 then [digit_char n] else str_nat (n div 10) @ [digit_char (n mod 10)])"
  by pat_completeness auto
termination
  by (relation "measure id") auto

definition str_int :: "int \<Rightarrow> string" where
  "str_int i = (if i < 0 then CHR ''-'' # str_nat (nat (- i)) else str_nat (nat i))"

text \<open>
  The values \<open>json.loads\<close> returns and the \<open>data\<close> field holds: \<open>None\<close>, booleans,
  integers, strings, lists and dictionaries (floats are not needed by any property
  below; the JSON parser itself is a parameter of the model).
\<close>

datatype pyval =
    PyNone
  | PyBool bool
  | PyInt int
  | PyStr string
  | PyList "pyval list"
  | PyDict "(string \<times> pyval) list"

text \<open>
  What a call of \<open>json.loads\<close> comes to: the parsed value, a \<open>JSONDecodeError\<close>, or
  another exception with its message (a \<open>ValueError\<close> for an integer literal longer than
  the interpreter's digit limit, a \<open>RecursionError\<close> for a document nested too deep).
\<close>

datatype json_outcome = Parsed pyval | JSONDecodeError | OtherError string

text \<open>
  The standard-library functions the code calls are parameters of the model:
  \<open>json_loads\<close> is \<open>json.loads\<close>, \<open>shlex_quote\<close> is \<open>shlex.quote\<close>, \<open>int_of_str\<close> is
  \<open>int\<close> applied to a stored configuration value (\<open>None\<close> stands for \<open>ValueError\<close>), and
  the last four are the \<open>pathlib\<close> operations on the key path: \<open>is_absolute\<close>,
  \<open>ROOT / path\<close>, \<open>exists\<close> and \<open>expanduser\<close>.
\<close>

record pylib =
  json_loads :: "string \<Rightarrow> json_outcome"
  shlex_quote :: "string \<Rightarrow> string"
  int_of_str :: "string \<Rightarrow> int option"
  is_absolute :: "string \<Rightarrow> bool"
  root_join :: "string \<Rightarrow> string"
  path_exists :: "string \<Rightarrow> bool"
  expanduser :: "string \<Rightarrow> string"

section \<open>The remote session\<close>

text \<open>
  What one \<open>exec_command\<close> on an open session, followed by reading both streams and
  the exit status, comes to: either one of these calls raises (\<open>Inl\<close> the message), or
  the decoded standard output, the decoded standard error and the exit status.
\<close>

type_synonym exec_response = "string + (string \<times> string \<times> int)"

text \<open>
  An open session answers a command line sent with an optional time limit
  (\<open>exec_command(full_cmd, timeout=timeout)\<close> in the shell runner,
  \<open>exec_command(full_cmd)\<close> in the SQL runner).
\<close>

type_synonym ssh_session = "string \<Rightarrow> int option \<Rightarrow> exec_response"

section \<open>Error classifiers\<close>

text \<open>\<open>_classify_ssh_error\<close> of \<open>command_executor_ssh/modules/ssh_runner.py\<close>.\<close>

definition classify_ssh_error :: "string \<Rightarrow> int \<Rightarrow> string" where
  "classify_ssh_error stderr exit_code =
     (let err = lower stderr in
      if str_in ''permission denied'' err then ''cmd_12''
      else if str_in ''not found'' err \<or> str_in ''no such file'' err then ''cmd_10''
      else if str_in ''timeout'' err then ''cmd_16''
      else if str_in ''sudo'' err \<and> str_in ''password'' err then ''cmd_12''
      else if exit_code \<noteq> 0 then ''cmd_18''
      else ''cmd_99'')"

text \<open>\<open>_parse_psql_error\<close> of \<open>command_executor_postgresql/modules/postgres_runner.py\<close>.\<close>

definition parse_psql_error :: "string \<Rightarrow> int \<Rightarrow> string" where
  "parse_psql_error stderr exit_code =
     (let err = lower stderr in
      if str_in ''psql: not found'' err \<or> str_in ''command not found'' err then ''pg_10''
      else if str_in ''fatal'' err \<and> str_in ''password'' err then ''pg_12''
      else if str_in ''fatal'' err \<and> (str_in ''could not connect'' err \<or> str_in ''no route'' err)
        then ''pg_16''
      else if str_in ''syntax error'' err \<or> str_in ''error:'' err then ''pg_14''
      else if exit_code \<noteq> 0 then ''pg_18'' else ''pg_99'')"

section \<open>The runners\<close>

text \<open>
  The result dictionaries. Both runners return \<open>stderr\<close> and \<open>exit_code\<close>; the SQL
  runner adds \<open>data\<close>, the shell runner \<open>command\<close> and \<open>stdout\<close>.
\<close>

record exec_result =
  stderr :: string
  exit_code :: int

record pg_result = exec_result +
  data :: pyval

record cmd_result = exec_result +
  command :: string
  stdout :: string

text \<open>\<open>run_ssh_command\<close>: the session is given by its answer to the command sent.\<close>

definition ssh_full_cmd :: "string \<Rightarrow> bool \<Rightarrow> string \<Rightarrow> string" where
  "ssh_full_cmd cmd sudo sudo_user = (if sudo then ''sudo -u '' @ sudo_user @ '' '' @ cmd else cmd)"

definition run_ssh_command ::
  "ssh_session \<Rightarrow> string \<Rightarrow> bool \<Rightarrow> string \<Rightarrow> int \<Rightarrow> cmd_result \<times> string" where
  "run_ssh_command ssh_client cmd sudo sudo_user timeout =
     (case ssh_client (ssh_full_cmd cmd sudo sudo_user) (Some timeout) of
        Inl e \<Rightarrow> (\<lparr>stderr = e, exit_code = - 1, command = cmd, stdout = ''''\<rparr>, ''ssh_99'')
      | Inr (raw_out, raw_err, ec) \<Rightarrow>
          (let out = strip raw_out; err = strip raw_err;
               result = \<lparr>stderr = err, exit_code = ec, command = cmd, stdout = out\<rparr>
           in if ec = 0 then (result, ''cmd_0'') else (result, classify_ssh_error err ec)))"

text \<open>
  \<open>run_postgres_command_over_ssh\<close>: the command line, then the execution. The \<open>try\<close>
  block around the execution catches every exception; the one around \<open>json.loads\<close>
  catches \<open>JSONDecodeError\<close> only, so any other exception of \<open>json.loads\<close> leaves the
  function (\<open>Inl\<close>).
\<close>

definition pg_full_cmd ::
  "pylib \<Rightarrow> string \<Rightarrow> string \<Rightarrow> string \<Rightarrow> int \<Rightarrow> string \<Rightarrow> string option \<Rightarrow> string" where
  "pg_full_cmd lib sql db_user db_name db_port psql_path db_password =
     (let psql_flags = ''-U '' @ shlex_quote lib db_user @ '' -d '' @ shlex_quote lib db_name
            @ '' -p '' @ str_int db_port @ '' -t -q -A -v ON_ERROR_STOP=1'';
          env_vars = (case db_password of
                        None \<Rightarrow> ''''
                      | Some p \<Rightarrow> if p = '''' then '''' else ''PGPASSWORD='' @ shlex_quote lib p @ '' '');
          wrapped_sql = ''SELECT json_agg(t) FROM ('' @ rstrip_semicolon (strip sql) @ '') t;'';
          inner_cmd = env_vars @ psql_path @ '' '' @ psql_flags @ '' <<'' @ [CHR 0x27]
            @ ''__PGSQL_HEREDOC__'' @ [CHR 0x27, CHR 0x0A] @ wrapped_sql @ [CHR 0x0A]
            @ ''__PGSQL_HEREDOC__''
      in ''su - postgres -c '' @ shlex_quote lib inner_cmd)"

definition run_postgres_command_over_ssh ::
  "pylib \<Rightarrow> ssh_session \<Rightarrow> string \<Rightarrow> string \<Rightarrow> string \<Rightarrow> int \<Rightarrow> string
     \<Rightarrow> string option \<Rightarrow> string + (pg_result \<times> string)" where
  "run_postgres_command_over_ssh lib ssh_client sql db_user db_name db_port psql_path db_password =
     (case ssh_client (pg_full_cmd lib sql db_user db_name db_port psql_path db_password) None of
        Inl e \<Rightarrow>
          Inr (\<lparr>stderr = ''SSH Execution Failed'', exit_code = - 1, data = PyNone\<rparr>, ''ssh_99'')
      | Inr (raw_out, raw_err, ec) \<Rightarrow>
          (let out = strip raw_out; err = strip raw_err;
               res = \<lparr>stderr = err, exit_code = ec, data = PyNone\<rparr>
           in if ec = 0 then
                (if out = [] then Inr (res\<lparr>data := PyList []\<rparr>, ''pg_0'')
                 else case json_loads lib out of
                        Parsed v \<Rightarrow> Inr (res\<lparr>data := v\<rparr>, ''pg_0'')
                      | JSONDecodeError \<Rightarrow> Inr (res\<lparr>data := PyStr out\<rparr>, ''pg_0'')
                      | OtherError e \<Rightarrow> Inl e)
              else Inr (res, parse_psql_error err ec)))"

section \<open>The vocabulary of the specification\<close>

text \<open>
  The specification names the outcome of a classification; the code returns a string.
  The two tables below give the string each name stands for: \<open>cmd_0\<close> and \<open>pg_0\<close> are
  the success codes the pipelines compare with, the others are the classifiers' codes.
\<close>

datatype shell_class =
  ShellSuccess | ShellAuthDenied | ShellNotFound | ShellTimeout | ShellGenericFailure | ShellUnknown

fun shell_code :: "shell_class \<Rightarrow> string" where
  "shell_code ShellSuccess = ''cmd_0''"
| "shell_code ShellAuthDenied = ''cmd_12''"
| "shell_code ShellNotFound = ''cmd_10''"
| "shell_code ShellTimeout = ''cmd_16''"
| "shell_code ShellGenericFailure = ''cmd_18''"
| "shell_code ShellUnknown = ''cmd_99''"

datatype sql_class =
  SqlSuccess | SqlExecutableMissing | SqlAuthFailure | SqlUnreachable | SqlSyntaxError
  | SqlGenericFailure | SqlUnknown

fun sql_code :: "sql_class \<Rightarrow> string" where
  "sql_code SqlSuccess = ''pg_0''"
| "sql_code SqlExecutableMissing = ''pg_10''"
| "sql_code SqlAuthFailure = ''pg_12''"
| "sql_code SqlUnreachable = ''pg_16''"
| "sql_code SqlSyntaxError = ''pg_14''"
| "sql_code SqlGenericFailure = ''pg_18''"
| "sql_code SqlUnknown = ''pg_99''"

section \<open>The configuration store, the session manager and the log store\<close>

text \<open>
  The tables of the configuration database that \<open>common/getter.py\<close> and the two
  \<open>main.py\<close> read: \<open>hosts (id, name, toggle)\<close>, \<open>ssh_variables\<close> and
  \<open>postgre_variables (id_host, variable, value)\<close>, \<open>commands (name, template)\<close>.
\<close>

record config_db =
  hosts :: "(nat \<times> string \<times> int) list"
  ssh_variables :: "(nat \<times> string \<times> string) list"
  postgre_variables :: "(nat \<times> string \<times> string) list"
  commands :: "(string \<times> string) list"

text \<open>
  The policy objects of the SSH library and what \<open>get_ssh_connection\<close> configures on
  the client before it connects.
\<close>

datatype host_key_policy = AutoAddPolicy | RejectPolicy

record ssh_client_config =
  missing_host_key_policy :: host_key_policy
  system_host_keys_loaded :: bool

text \<open>
  One record of the log store: the row of \<open>execution_tasks\<close> and the row of
  \<open>execution_results\<close> that \<open>log_execution\<close> inserts together.
\<close>

record log_entry =
  target_host :: string
  query_text :: string
  database_name :: "string option"
  code :: string
  logged_exit_code :: int
  stdout_text :: string
  stderr_text :: string

text \<open>
  Everything outside the program. \<open>config_store\<close> is the configuration database
  (\<open>Inl\<close>: opening it raises); \<open>logger_ok\<close> says whether the log database can be opened;
  \<open>connect\<close> is \<open>SSHClient.connect\<close> on a configured client, for a host name, a user, a
  key file and a time limit (\<open>Inl\<close>: it raises, \<open>Inr\<close>: the open session);
  \<open>render_sql\<close> is the template engine (\<open>common/template_engine.py\<close>, \<open>Inl\<close>: it raises).
\<close>

record world =
  lib :: pylib
  config_store :: "string + config_db"
  logger_ok :: bool
  connect :: "ssh_client_config \<Rightarrow> string \<Rightarrow> string \<Rightarrow> string \<Rightarrow> int \<Rightarrow> string + ssh_session"
  render_sql :: "string \<Rightarrow> (string \<rightharpoonup> string) \<Rightarrow> string + string"

text \<open>\<open>get_config_for_host\<close>, \<open>get_all_active_hosts\<close> and \<open>get_ssh_connection\<close> of \<open>common/getter.py\<close>.\<close>

definition host_vars :: "nat \<Rightarrow> (nat \<times> string \<times> string) list \<Rightarrow> (string \<rightharpoonup> string)" where
  "host_vars host_id rows = map_of (rev (map snd (filter (\<lambda>row. fst row = host_id) rows)))"

definition get_config_for_host ::
  "string + config_db \<Rightarrow> string
     \<Rightarrow> string + (string \<times> (string \<rightharpoonup> string) \<times> (string \<rightharpoonup> string))" where
  "get_config_for_host store host_name =
     (case store of
        Inl e \<Rightarrow> Inl e
      | Inr db \<Rightarrow>
          (case find (\<lambda>row. fst (snd row) = host_name \<and> snd (snd row) = 1) (hosts db) of
             None \<Rightarrow> Inl (''Host '' @ [CHR 0x27] @ host_name @ [CHR 0x27] @ '' not found or disabled'')
           | Some row \<Rightarrow>
               Inr (host_name, host_vars (fst row) (ssh_variables db),
                    host_vars (fst row) (postgre_variables db))))"

definition get_all_active_hosts :: "string + config_db \<Rightarrow> string + string list" where
  "get_all_active_hosts store =
     (case store of
        Inl e \<Rightarrow> Inl e
      | Inr db \<Rightarrow> Inr (map (\<lambda>row. fst (snd row)) (filter (\<lambda>row. snd (snd row) = 1) (hosts db))))"

definition get_ssh_connection ::
  "world \<Rightarrow> string \<Rightarrow> string \<Rightarrow> string \<Rightarrow> int \<Rightarrow> bool \<Rightarrow> ssh_session option \<times> string" where
  "get_ssh_connection w username hostname key_path timeout allow_new_hosts =
     (let client =
            (if allow_new_hosts
             then \<lparr>missing_host_key_policy = AutoAddPolicy, system_host_keys_loaded = False\<rparr>
             else \<lparr>missing_host_key_policy = RejectPolicy, system_host_keys_loaded = True\<rparr>)
      in case connect w client hostname username key_path timeout of
           Inr session \<Rightarrow> (Some session, ''ssh_0'')
         | Inl e \<Rightarrow> (None, ''ssh_99: '' @ e))"

text \<open>
  \<open>log_execution\<close> of \<open>common/logger.py\<close>. The caller's result dictionary is given by
  what the logger reads of it: \<open>result.get("stdout", "")\<close>, \<open>result.get("stderr", "")\<close>
  and \<open>result.get("exit_code")\<close>. When the log database cannot be opened the function
  prints a message and writes nothing.
\<close>

definition log_execution ::
  "world \<Rightarrow> log_entry list \<Rightarrow> string \<Rightarrow> string \<Rightarrow> string \<Rightarrow> string \<Rightarrow> int \<Rightarrow> string
     \<Rightarrow> string option \<Rightarrow> log_entry list" where
  "log_execution w store host_text query res_stdout res_stderr res_exit_code res_code db_name =
     (if logger_ok w
      then store @ [\<lparr>target_host = host_text, query_text = query, database_name = db_name,
                     code = res_code, logged_exit_code = res_exit_code,
                     stdout_text = res_stdout, stderr_text = res_stderr\<rparr>]
      else store)"

text \<open>
  The key path both pipelines compute: an absolute path is kept, a relative one is taken
  under the project root when that file exists and under the home directory otherwise.
\<close>

definition resolve_key_path :: "pylib \<Rightarrow> (string \<rightharpoonup> string) \<Rightarrow> string" where
  "resolve_key_path l ssh_vars =
     (let key_path = (case ssh_vars ''SSH_KEY_PATH'' of None \<Rightarrow> ''~/.ssh/id_ed25519'' | Some p \<Rightarrow> p)
      in if is_absolute l key_path then key_path
         else if path_exists l (root_join l key_path) then root_join l key_path
         else expanduser l key_path)"

text \<open>\<open>int(vars.get(key, default))\<close>: the default is already an integer.\<close>

definition int_var :: "pylib \<Rightarrow> (string \<rightharpoonup> string) \<Rightarrow> string \<Rightarrow> int \<Rightarrow> string + int" where
  "int_var l vars key dflt =
     (case vars key of
        None \<Rightarrow> Inr dflt
      | Some v \<Rightarrow>
          (case int_of_str l v of
             None \<Rightarrow> Inl (''invalid literal for int() with base 10: '' @ [CHR 0x27] @ v @ [CHR 0x27])
           | Some i \<Rightarrow> Inr i))"

text \<open>
  What a run of a host pipeline leaves behind: the value \<open>process_host\<close> returns or the
  exception that leaves it (\<open>Inl\<close>), the records it appended to the log store, in order, and
  whether the \<open>finally\<close> block closed a session.
\<close>

record 'r run =
  returned :: "string + 'r"
  log_store :: "log_entry list"
  session_closed :: bool

section \<open>The SQL variant: \<open>command_executor_postgresql\<close>\<close>

text \<open>\<open>dict.get(key, default)\<close> on a dictionary of strings.\<close>

definition get_or :: "(string \<rightharpoonup> string) \<Rightarrow> string \<Rightarrow> string \<Rightarrow> string" where
  "get_or m k dflt = (case m k of None \<Rightarrow> dflt | Some v \<Rightarrow> v)"

text \<open>Python's truth value of an optional list: \<open>None\<close> and \<open>[]\<close> are false.\<close>

definition truthy :: "'a list option \<Rightarrow> bool" where
  "truthy xs = (case xs of None \<Rightarrow> False | Some [] \<Rightarrow> False | Some (y # ys) \<Rightarrow> True)"

text \<open>
  The session object a pipeline holds after \<open>get_ssh_connection\<close>. The variable is
  \<open>None\<close> when no session was opened; a call on \<open>None\<close> raises.
\<close>

definition session_of :: "ssh_session option \<Rightarrow> ssh_session" where
  "session_of client =
     (case client of
        Some s \<Rightarrow> s
      | None \<Rightarrow> (\<lambda>full_cmd t. Inl ''NoneType object has no attribute exec_command''))"

text \<open>
  \<open>get_sql_template\<close> and \<open>get_user_databases\<close> of
  \<open>command_executor_postgresql/modules/getter.py\<close> (the messages of the two exceptions
  are in Russian in the source and are given in English here).
\<close>

definition get_sql_template :: "string + config_db \<Rightarrow> string \<Rightarrow> string + string" where
  "get_sql_template store command_name =
     (case store of
        Inl e \<Rightarrow> Inl e
      | Inr db \<Rightarrow>
          (case find (\<lambda>row. fst row = command_name) (commands db) of
             None \<Rightarrow> Inl (''SQL command '' @ [CHR 0x27] @ command_name @ [CHR 0x27]
                          @ '' not found in table commands'')
           | Some row \<Rightarrow> Inr (snd row)))"

definition list_databases_cmd :: string where
  "list_databases_cmd = ''su - postgres -c '' @ [CHR 0x22] @ ''psql -t -A -c '' @ [CHR 0x27]
     @ ''SELECT datname FROM pg_database WHERE datistemplate = false;'' @ [CHR 0x27, CHR 0x22]"

definition get_user_databases :: "ssh_session \<Rightarrow> string + string list" where
  "get_user_databases client =
     (case client list_databases_cmd None of
        Inl e \<Rightarrow> Inl e
      | Inr (raw_out, raw_err, ec) \<Rightarrow>
          (let out = strip raw_out; err = strip raw_err
           in if err \<noteq> [] then Inl (''Error getting the list of databases: '' @ err)
              else Inr (map strip (filter (\<lambda>db. strip db \<noteq> []) (splitlines out)))))"

text \<open>
  The dictionaries \<open>process_host\<close> builds. A field that only some of the returned
  dictionaries have is an option, \<open>None\<close> when the key is absent: \<open>error\<close>, \<open>results\<close>,
  \<open>databases_processed\<close> and \<open>databases_failed\<close>. \<open>pg_code\<close> is \<open>None\<close> when the key is
  absent, \<open>Some None\<close> when it holds Python's \<open>None\<close>, and \<open>Some (Some c)\<close> for a code.
  The fields of a per-database entry carry the prefix \<open>db_\<close> where the key is also a key
  of the host dictionary or of the runner's result.
\<close>

record db_result =
  database :: string
  db_pg_code :: string
  db_exit_code :: int
  db_success :: bool
  db_data :: pyval

record pg_host_result =
  host :: string
  ssh_code :: string
  pg_code :: "string option option"
  error :: "string option"
  results :: "db_result list option"
  success :: bool
  databases_processed :: "nat option"
  databases_failed :: "nat option"

text \<open>The dictionary of the four early returns.\<close>

definition pg_failure :: "string \<Rightarrow> string \<Rightarrow> string option \<Rightarrow> string \<Rightarrow> pg_host_result" where
  "pg_failure h sc pc error_msg =
     \<lparr>host = h, ssh_code = sc, pg_code = Some pc, error = Some error_msg, results = None,
      success = False, databases_processed = None, databases_failed = None\<rparr>"

text \<open>
  The loop over the databases: one runner call, one log record and one entry of \<open>results\<close>
  per database. \<open>int(pg_vars.get("PG_DB_PORT", 5432))\<close> is evaluated in every round and
  may raise, and so may the runner; the exception then leaves \<open>process_host\<close>, after
  the records of the earlier rounds have been written.
\<close>

fun pg_run_databases ::
  "world \<Rightarrow> ssh_session \<Rightarrow> string \<Rightarrow> string \<Rightarrow> (string \<rightharpoonup> string) \<Rightarrow> string list
     \<Rightarrow> db_result list \<Rightarrow> log_entry list \<Rightarrow> (string + db_result list) \<times> log_entry list" where
  "pg_run_databases w client name rendered_sql pg_vars [] acc store = (Inr acc, store)"
| "pg_run_databases w client name rendered_sql pg_vars (db_name # rest) acc store =
     (case int_var (lib w) pg_vars ''PG_DB_PORT'' 5432 of
        Inl e \<Rightarrow> (Inl e, store)
      | Inr db_port \<Rightarrow>
          (case run_postgres_command_over_ssh (lib w) client rendered_sql
                  (get_or pg_vars ''PG_DB_USER'' ''postgres'') db_name db_port
                  (get_or pg_vars ''PG_PSQL_PATH'' ''/usr/bin/psql'') (pg_vars ''PG_PASSWORD'') of
             Inl e \<Rightarrow> (Inl e, store)
           | Inr (result, code_of_run) \<Rightarrow>
               (let store' = log_execution w store name rendered_sql '''' (stderr result)
                               (exit_code result) code_of_run (Some db_name);
                    acc' = acc @ [\<lparr>database = db_name, db_pg_code = code_of_run,
                                    db_exit_code = exit_code result,
                                    db_success = (code_of_run = ''pg_0''), db_data = data result\<rparr>]
                in pg_run_databases w client name rendered_sql pg_vars rest acc' store')))"

text \<open>
  The list of databases \<open>process_host\<close> works on: the databases given on the command
  line or, when none is given, those the server lists; then, when an exclusion list is
  given and the list is not empty, without the excluded ones. Listing may raise.
\<close>

definition pg_select_databases ::
  "ssh_session \<Rightarrow> string list option \<Rightarrow> string list option \<Rightarrow> string + string list" where
  "pg_select_databases client target_dbs exclude_dbs =
     (case (if truthy target_dbs then Inr (the target_dbs) else get_user_databases client) of
        Inl e \<Rightarrow> Inl e
      | Inr databases \<Rightarrow>
          Inr (if truthy exclude_dbs \<and> databases \<noteq> []
               then filter (\<lambda>db. db \<notin> set (the exclude_dbs)) databases
               else databases))"

text \<open>
  The inner \<open>try\<close> block that fetches the template of the command and renders it;
  either step may raise.
\<close>

definition pg_rendered_sql :: "world \<Rightarrow> string \<Rightarrow> (string \<rightharpoonup> string) \<Rightarrow> string + string" where
  "pg_rendered_sql w cmd_name template_vars =
     (case get_sql_template (config_store w) cmd_name of
        Inl e \<Rightarrow> Inl e
      | Inr sql_template \<Rightarrow> render_sql w sql_template template_vars)"

text \<open>
  The body of the \<open>try\<close> block of \<open>process_host\<close>: what is returned or raised, the log
  records written, and the value of the variable \<open>client\<close> when the block is left.
\<close>

definition pg_process_host_try ::
  "world \<Rightarrow> string \<Rightarrow> string \<Rightarrow> (string \<rightharpoonup> string) \<Rightarrow> string list option \<Rightarrow> string list option
     \<Rightarrow> bool \<Rightarrow> (string + pg_host_result) \<times> log_entry list \<times> ssh_session option" where
  "pg_process_host_try w host_name cmd_name template_vars target_dbs exclude_dbs allow_new_hosts =
     (case get_config_for_host (config_store w) host_name of
        Inl e \<Rightarrow>
          (let error_msg = ''CONFIG_ERROR: '' @ e
           in (Inr (pg_failure host_name ''ssh_99'' None error_msg),
               log_execution w [] host_name (''CONFIG_ERROR: '' @ cmd_name) '''' error_msg (- 1)
                 ''ssh_99'' None,
               None))
      | Inr (name, ssh_vars, pg_vars) \<Rightarrow>
          (case int_var (lib w) ssh_vars ''SSH_TIMEOUT'' 10 of
             Inl e \<Rightarrow> (Inl e, [], None)
           | Inr timeout \<Rightarrow>
               (let (client, code_of_ssh) =
                      get_ssh_connection w (get_or ssh_vars ''SSH_USER'' ''root'') name
                        (resolve_key_path (lib w) ssh_vars) timeout allow_new_hosts
                in if code_of_ssh \<noteq> ''ssh_0'' then
                     (let error_msg = ''SSH Connection Failed: '' @ code_of_ssh
                      in (Inr (pg_failure name code_of_ssh None error_msg),
                          log_execution w [] name (''SSH_ERROR: '' @ cmd_name) '''' error_msg (- 1)
                            code_of_ssh None,
                          client))
                   else
                     (case pg_select_databases (session_of client) target_dbs exclude_dbs of
                        Inl e \<Rightarrow> (Inl e, [], client)
                      | Inr databases \<Rightarrow>
                          (if databases = [] then
                            (let error_msg = ''No databases to process''
                             in (Inr (pg_failure name ''ssh_0'' (Some ''pg_99'') error_msg),
                                 log_execution w [] name (''DB_LIST_ERROR: '' @ cmd_name) ''''
                                   error_msg (- 1) ''pg_99'' None,
                                 client))
                          else
                            (case pg_rendered_sql w cmd_name template_vars of
                               Inl e \<Rightarrow>
                                 (let error_msg = ''Template Error: '' @ e
                                  in (Inr (pg_failure name ''ssh_0'' (Some ''pg_99'') error_msg),
                                      log_execution w [] name (''TEMPLATE_ERROR: '' @ cmd_name) ''''
                                        error_msg (- 1) ''pg_99'' None,
                                      client))
                             | Inr rendered_sql \<Rightarrow>
                                 (case pg_run_databases w (session_of client) name rendered_sql
                                         pg_vars databases [] [] of
                                    (Inl e, store) \<Rightarrow> (Inl e, store, client)
                                  | (Inr rs, store) \<Rightarrow>
                                      (Inr \<lparr>host = name, ssh_code = ''ssh_0'', pg_code = None,
                                            error = None, results = Some rs,
                                            success = (if rs \<noteq> [] then list_all db_success rs
                                                       else False),
                                            databases_processed = Some (length rs),
                                            databases_failed =
                                              Some (length (filter (\<lambda>r. \<not> db_success r) rs))\<rparr>,
                                       store, client))))))))"

text \<open>\<open>process_host\<close>: the \<open>try\<close> block, then the \<open>finally\<close> block closes the session if there is one.\<close>

definition pg_process_host ::
  "world \<Rightarrow> string \<Rightarrow> string \<Rightarrow> (string \<rightharpoonup> string) \<Rightarrow> string list option \<Rightarrow> string list option
     \<Rightarrow> bool \<Rightarrow> pg_host_result run" where
  "pg_process_host w host_name cmd_name template_vars target_dbs exclude_dbs allow_new_hosts =
     (case pg_process_host_try w host_name cmd_name template_vars target_dbs exclude_dbs
             allow_new_hosts of
        (r, store, client) \<Rightarrow>
          \<lparr>returned = r, log_store = store, session_closed = (client \<noteq> None)\<rparr>)"

section \<open>The shell variant: \<open>command_executor_ssh\<close>\<close>

text \<open>
  The dictionary \<open>process_host\<close> of the shell variant fills in. Its keys are \<open>host\<close>,
  \<open>success\<close>, \<open>error\<close>, \<open>cmd_code\<close>, \<open>exit_code\<close>, \<open>stdout\<close> and \<open>stderr\<close>; the fields
  carry the prefix \<open>sh_\<close> to keep them apart from those of the other dictionaries.
\<close>

record ssh_host_result =
  sh_host :: string
  sh_success :: bool
  sh_error :: "string option"
  sh_cmd_code :: "string option"
  sh_exit_code :: "int option"
  sh_stdout :: string
  sh_stderr :: string

text \<open>
  The body of the \<open>try\<close> block of \<open>process_host\<close>. Nothing in it catches an exception:
  one raised by \<open>get_config_for_host\<close>, by \<open>int\<close> or by \<open>render_sql\<close> leaves the function.
\<close>

definition ssh_process_host_try ::
  "world \<Rightarrow> string \<Rightarrow> string \<Rightarrow> (string \<rightharpoonup> string) \<Rightarrow> bool \<Rightarrow> string \<Rightarrow> int \<Rightarrow> bool \<Rightarrow> bool
     \<Rightarrow> (string + ssh_host_result) \<times> log_entry list \<times> ssh_session option" where
  "ssh_process_host_try w host_name command_template template_vars sudo sudo_user timeout
       allow_new_hosts dry_run =
     (let result = \<lparr>sh_host = host_name, sh_success = False, sh_error = None, sh_cmd_code = None,
                     sh_exit_code = None, sh_stdout = '''', sh_stderr = ''''\<rparr>
      in case get_config_for_host (config_store w) host_name of
           Inl e \<Rightarrow> (Inl e, [], None)
         | Inr (name, ssh_vars, pg_vars) \<Rightarrow>
             (case int_var (lib w) ssh_vars ''SSH_TIMEOUT'' 10 of
                Inl e \<Rightarrow> (Inl e, [], None)
              | Inr ssh_timeout \<Rightarrow>
                  (case render_sql w command_template template_vars of
                     Inl e \<Rightarrow> (Inl e, [], None)
                   | Inr rendered_command \<Rightarrow>
                       if dry_run then
                         (Inr (result\<lparr>sh_success := True, sh_cmd_code := Some ''cmd_0'',
                                      sh_stdout := ''[DRY-RUN] '' @ rendered_command\<rparr>),
                          [], None)
                       else
                         (let (client, code_of_ssh) =
                                get_ssh_connection w (get_or ssh_vars ''SSH_USER'' ''root'') name
                                  (resolve_key_path (lib w) ssh_vars) ssh_timeout allow_new_hosts
                          in if code_of_ssh \<noteq> ''ssh_0'' then
                               (Inr (result\<lparr>sh_error := Some (''SSH error: '' @ code_of_ssh),
                                            sh_cmd_code := Some code_of_ssh,
                                            sh_exit_code := Some (- 1)\<rparr>),
                                log_execution w [] name rendered_command '''' code_of_ssh (- 1)
                                  code_of_ssh None,
                                client)
                             else
                               (let (res_of_cmd, code_of_cmd) =
                                      run_ssh_command (session_of client) rendered_command sudo
                                        sudo_user timeout
                                in (Inr (result\<lparr>sh_cmd_code := Some code_of_cmd,
                                                sh_exit_code := Some (exit_code res_of_cmd),
                                                sh_stdout := stdout res_of_cmd,
                                                sh_stderr := stderr res_of_cmd,
                                                sh_success := (code_of_cmd = ''cmd_0'')\<rparr>),
                                    log_execution w [] name rendered_command (stdout res_of_cmd)
                                      (stderr res_of_cmd) (exit_code res_of_cmd) code_of_cmd None,
                                    client))))))"

definition ssh_process_host ::
  "world \<Rightarrow> string \<Rightarrow> string \<Rightarrow> (string \<rightharpoonup> string) \<Rightarrow> bool \<Rightarrow> string \<Rightarrow> int \<Rightarrow> bool \<Rightarrow> bool
     \<Rightarrow> ssh_host_result run" where
  "ssh_process_host w host_name command_template template_vars sudo sudo_user timeout
       allow_new_hosts dry_run =
     (case ssh_process_host_try w host_name command_template template_vars sudo sudo_user timeout
             allow_new_hosts dry_run of
        (r, store, client) \<Rightarrow>
          \<lparr>returned = r, log_store = store, session_closed = (client \<noteq> None)\<rparr>)"

section \<open>The dispatchers: the two \<open>main\<close> functions\<close>

text \<open>
  The parsed command line. Both variants have \<open>--cmd\<close>, \<open>--host\<close>, \<open>--workers\<close>, \<open>--var\<close>,
  \<open>--allow-new-hosts\<close> and \<open>--verbose\<close>; the SQL variant adds \<open>--db\<close> and \<open>--db-exclude\<close>,
  the shell variant \<open>--sudo\<close>, \<open>--sudo-user\<close>, \<open>--timeout\<close> and \<open>--dry-run\<close>. An option
  given no value is \<open>None\<close>.
\<close>

record common_args =
  arg_cmd :: string
  arg_host :: "string option"
  arg_workers :: int
  arg_var :: "string list option"
  arg_allow_new_hosts :: bool
  arg_verbose :: bool

record pg_args = common_args +
  arg_db :: "string list option"
  arg_db_exclude :: "string list option"

record ssh_args = common_args +
  arg_sudo :: bool
  arg_sudo_user :: string
  arg_timeout :: int
  arg_dry_run :: bool

text \<open>
  The template variables: every \<open>key=value\<close> of \<open>--var\<close> that contains \<open>=\<close> is split at
  its first \<open>=\<close>, both halves stripped; a later one overrides an earlier one.
\<close>

fun add_template_vars :: "string list \<Rightarrow> (string \<rightharpoonup> string) \<Rightarrow> (string \<rightharpoonup> string)" where
  "add_template_vars [] m = m"
| "add_template_vars (v # vs) m =
     add_template_vars vs
       (if CHR ''='' \<in> set v
        then m(strip (takeWhile (\<lambda>c. c \<noteq> CHR ''='') v)
                 \<mapsto> strip (drop 1 (dropWhile (\<lambda>c. c \<noteq> CHR ''='') v)))
        else m)"

definition template_vars_of :: "string list option \<Rightarrow> (string \<rightharpoonup> string)" where
  "template_vars_of vars = (case vars of None \<Rightarrow> Map.empty | Some vs \<Rightarrow> add_template_vars vs Map.empty)"

text \<open>\<open>[args.host] if args.host else get_all_active_hosts(ROOT)\<close>.\<close>

definition hosts_of :: "world \<Rightarrow> string option \<Rightarrow> string + string list" where
  "hosts_of w h =
     (case h of
        None \<Rightarrow> get_all_active_hosts (config_store w)
      | Some n \<Rightarrow> if n = [] then get_all_active_hosts (config_store w) else Inr [n])"

text \<open>
  The futures of the worker pool are consumed in the order they complete, which is any
  order. \<open>order\<close> lists the positions of the futures in that order; positions outside the
  list of futures are ignored.
\<close>

definition as_completed :: "nat list \<Rightarrow> 'a list \<Rightarrow> 'a list" where
  "as_completed order futures = map (\<lambda>i. futures ! i) (filter (\<lambda>i. i < length futures) order)"

text \<open>The three counters of the SQL variant and the body of its loop over the futures.\<close>

record fleet_summary =
  success_count :: nat
  fail_count :: nat
  partial_count :: nat

definition pg_count :: "fleet_summary \<Rightarrow> string + pg_host_result \<Rightarrow> fleet_summary" where
  "pg_count s future =
     (case future of
        Inr result \<Rightarrow>
          if success result then s\<lparr>success_count := success_count s + 1\<rparr>
          else if truthy (results result) then s\<lparr>partial_count := partial_count s + 1\<rparr>
          else s\<lparr>fail_count := fail_count s + 1\<rparr>
      | Inl e \<Rightarrow> s\<lparr>fail_count := fail_count s + 1\<rparr>)"

text \<open>The status word \<open>print_pg_result\<close> prints for a returned dictionary.\<close>

datatype status_word = OK | PARTIAL | FAIL

definition print_pg_result :: "pg_host_result \<Rightarrow> status_word" where
  "print_pg_result result =
     (if ssh_code result \<noteq> ''ssh_0'' then FAIL
      else if \<not> truthy (results result) then FAIL
      else if success result then OK
      else PARTIAL)"

text \<open>
  \<open>pg_future\<close> is what the future submitted for a host comes to: the dictionary
  \<open>process_host\<close> returns for the arguments of the command line, or the exception that
  leaves it.

  \<open>main\<close> of the SQL variant. It returns nothing: the result is \<open>Inl\<close> for an exception
  that leaves it, \<open>Inr None\<close> when there is no host to process, and otherwise the final
  values of the three counters, which it prints. The pool refuses a worker count below 1.
\<close>

definition pg_future :: "world \<Rightarrow> pg_args \<Rightarrow> string \<Rightarrow> string + pg_host_result" where
  "pg_future w args h =
     returned (pg_process_host w h (arg_cmd args) (template_vars_of (arg_var args)) (arg_db args)
                 (arg_db_exclude args) (arg_allow_new_hosts args))"

definition pg_main :: "world \<Rightarrow> pg_args \<Rightarrow> nat list \<Rightarrow> string + fleet_summary option" where
  "pg_main w args order =
     (case hosts_of w (arg_host args) of
        Inl e \<Rightarrow> Inl e
      | Inr hs \<Rightarrow>
          if hs = [] then Inr None
          else if arg_workers args \<le> 0 then Inl ''max_workers must be greater than 0''
          else
            (let futures = map (pg_future w args) hs
             in Inr (Some (foldl pg_count
                             \<lparr>success_count = 0, fail_count = 0, partial_count = 0\<rparr>
                             (as_completed order futures)))))"

text \<open>
  The exit status of the process. The SQL script ends with a bare \<open>main()\<close>: the status is
  0 unless an exception leaves \<open>main\<close>. The shell script ends with \<open>sys.exit(main())\<close>.
\<close>

definition pg_exit_status :: "string + fleet_summary option \<Rightarrow> int" where
  "pg_exit_status r = (case r of Inl e \<Rightarrow> 1 | Inr s \<Rightarrow> 0)"

definition ssh_exit_status :: "string + int \<Rightarrow> int" where
  "ssh_exit_status r = (case r of Inl e \<Rightarrow> 1 | Inr n \<Rightarrow> n)"

text \<open>
  \<open>get_command_template\<close> of the shell variant: \<open>None\<close> when the configuration database
  cannot be opened or has no such command.
\<close>

definition get_command_template :: "string + config_db \<Rightarrow> string \<Rightarrow> string option" where
  "get_command_template store command_name =
     (case store of
        Inl e \<Rightarrow> None
      | Inr db \<Rightarrow> map_option snd (find (\<lambda>row. fst row = command_name) (commands db)))"

text \<open>
  The state of the loop of the shell variant: the two counters and the dictionary
  \<open>results\<close>, keyed by host name.
\<close>

record ssh_tally =
  tally_success :: nat
  tally_fail :: nat
  tally_results :: "string \<rightharpoonup> ssh_host_result"

definition ssh_count :: "ssh_tally \<Rightarrow> string \<times> (string + ssh_host_result) \<Rightarrow> ssh_tally" where
  "ssh_count s hf =
     (case hf of
        (h, Inr r) \<Rightarrow>
          (let s' = s\<lparr>tally_results := (tally_results s)(h \<mapsto> r)\<rparr>
           in if sh_success r then s'\<lparr>tally_success := tally_success s' + 1\<rparr>
              else s'\<lparr>tally_fail := tally_fail s' + 1\<rparr>)
      | (h, Inl e) \<Rightarrow> s\<lparr>tally_fail := tally_fail s + 1\<rparr>)"

text \<open>
  \<open>main\<close> of the shell variant: the value it returns, or \<open>Inl\<close> for an exception that
  leaves it. After the loop, for a single host and without \<open>--verbose\<close>, it reads
  \<open>results[hosts[0]]\<close>, which raises \<open>KeyError\<close> when that host's future raised.
\<close>

definition ssh_main :: "world \<Rightarrow> ssh_args \<Rightarrow> nat list \<Rightarrow> string + int" where
  "ssh_main w args order =
     (let template_vars = template_vars_of (arg_var args);
          command_template = (case get_command_template (config_store w) (arg_cmd args) of
                                None \<Rightarrow> arg_cmd args
                              | Some t \<Rightarrow> t)
      in case hosts_of w (arg_host args) of
           Inl e \<Rightarrow> Inl e
         | Inr hs \<Rightarrow>
             if hs = [] then Inr 1
             else if arg_workers args \<le> 0 then Inl ''max_workers must be greater than 0''
             else
               (let futures =
                      map (\<lambda>h. (h, returned (ssh_process_host w h command_template template_vars
                                     (arg_sudo args) (arg_sudo_user args) (arg_timeout args)
                                     (arg_allow_new_hosts args) (arg_dry_run args)))) hs;
                    s = foldl ssh_count
                          \<lparr>tally_success = 0, tally_fail = 0, tally_results = Map.empty\<rparr>
                          (as_completed order futures)
                in if length hs = 1 \<and> \<not> arg_verbose args \<and> tally_results s (hd hs) = None
                   then Inl (''KeyError: '' @ hd hs)
                   else Inr (if tally_fail s = 0 then 0 else 1)))"

section \<open>The vocabulary of the claims about outcomes\<close>

text \<open>
  \<open>counted_as s s' b\<close>: going from the counters \<open>s\<close> to \<open>s'\<close> increments the bucket \<open>b\<close>
  by one and leaves the other two as they are.
\<close>

definition counted_as :: "fleet_summary \<Rightarrow> fleet_summary \<Rightarrow> status_word \<Rightarrow> bool" where
  "counted_as s s' b =
     (s' = (case b of
              OK \<Rightarrow> s\<lparr>success_count := success_count s + 1\<rparr>
            | PARTIAL \<Rightarrow> s\<lparr>partial_count := partial_count s + 1\<rparr>
            | FAIL \<Rightarrow> s\<lparr>fail_count := fail_count s + 1\<rparr>))"

text \<open>
  The unit results a completed future carries: the list under \<open>results\<close>, and none when
  the future raised or the dictionary has no such key.
\<close>

definition units_of :: "string + pg_host_result \<Rightarrow> db_result list" where
  "units_of future =
     (case future of
        Inl e \<Rightarrow> []
      | Inr r \<Rightarrow> (case results r of None \<Rightarrow> [] | Some rs \<Rightarrow> rs))"

text \<open>A future of the shell variant is a full success when it returned a dictionary whose \<open>success\<close> is true.\<close>

definition ssh_full_success :: "string + ssh_host_result \<Rightarrow> bool" where
  "ssh_full_success future = (case future of Inl e \<Rightarrow> False | Inr r \<Rightarrow> sh_success r)"

text \<open>The number of futures counted so far.\<close>

definition total_count :: "fleet_summary \<Rightarrow> nat" where
  "total_count s = success_count s + partial_count s + fail_count s"

section \<open>A concrete world, for the examples\<close>

text \<open>
  The standard output of a statement that selects one integer of 5000 digits: a JSON
  array with one object whose field \<open>f\<close> is that integer.
\<close>

definition big_stdout :: string where
  "big_stdout = ''[{'' @ [CHR 0x22] @ ''f'' @ [CHR 0x22] @ '':'' @ replicate 5000 (CHR ''1'') @ ''}]''"

text \<open>
  A library whose JSON parser knows one document, raises the \<open>ValueError\<close> of the
  integer digit limit on the output above and \<open>JSONDecodeError\<close> on any other text, a
  configuration database with the
  hosts \<open>a\<close> and \<open>b\<close> (and a disabled one), and a network in which only \<open>a\<close> accepts a
  connection. On \<open>a\<close> the server lists the databases \<open>db1\<close> and \<open>db2\<close>; a statement run
  in \<open>db1\<close> succeeds and prints a JSON array, one run in \<open>db2\<close> fails with a syntax
  error; any other command prints nothing and succeeds.
\<close>

definition lib0 :: pylib where
  "lib0 =
     \<lparr>json_loads = (\<lambda>s. if s = ''[1]'' then Parsed (PyList [PyInt 1])
                         else if s = big_stdout
                           then OtherError (''Exceeds the limit (4300 digits) for integer string ''
                                  @ ''conversion: value has 5000 digits; use ''
                                  @ ''sys.set_int_max_str_digits() to increase the limit'')
                         else JSONDecodeError),
      shlex_quote = (\<lambda>s. [CHR 0x27] @ s @ [CHR 0x27]),
      int_of_str = (\<lambda>s. if s = ''5432'' then Some 5432 else if s = ''10'' then Some 10 else None),
      is_absolute = (\<lambda>p. take 1 p = ''/''),
      root_join = (\<lambda>p. ''/opt/wasserfall/'' @ p),
      path_exists = (\<lambda>p. False),
      expanduser = (\<lambda>p. ''/root/'' @ drop 2 p)\<rparr>"

definition config0 :: config_db where
  "config0 =
     \<lparr>hosts = [(1, ''a'', 1), (2, ''b'', 1), (3, ''off'', 0)],
      ssh_variables = [(1, ''SSH_USER'', ''ops'')],
      postgre_variables = [],
      commands = [(''one'', ''SELECT 1;''), (''up'', ''uptime'')]\<rparr>"

definition session_a :: ssh_session where
  "session_a full_cmd t =
     (if full_cmd = list_databases_cmd then Inr (''db1'' @ [CHR 0x0A] @ ''db2'' @ [CHR 0x0A], '''', 0)
      else if str_in ''db1'' full_cmd then Inr (''[1]'' @ [CHR 0x0A], '''', 0)
      else if str_in ''db2'' full_cmd
        then Inr ('''', ''ERROR:  syntax error at or near '' @ [CHR 0x22] @ ''FROM'' @ [CHR 0x22], 1)
      else Inr ('''', '''', 0))"

definition world0 :: world where
  "world0 =
     \<lparr>lib = lib0,
      config_store = Inr config0,
      logger_ok = True,
      connect = (\<lambda>client hostname username key_path timeout.
                   if hostname = ''a'' then Inr session_a else Inl ''timed out''),
      render_sql = (\<lambda>template_str vars. Inr template_str)\<rparr>"

definition pg_args0 :: pg_args where
  "pg_args0 =
     \<lparr>arg_cmd = ''one'', arg_host = None, arg_workers = 5, arg_var = None,
      arg_allow_new_hosts = False, arg_verbose = False, arg_db = None, arg_db_exclude = None\<rparr>"

definition ssh_args0 :: ssh_args where
  "ssh_args0 =
     \<lparr>arg_cmd = ''up'', arg_host = None, arg_workers = 5, arg_var = None,
      arg_allow_new_hosts = False, arg_verbose = False, arg_sudo = False, arg_sudo_user = ''root'',
      arg_timeout = 60, arg_dry_run = False\<rparr>"

section \<open>Properties of the strings\<close>

lemma str_in_sublist: "str_in pat s = sublist pat s"
  by (induction s) (auto simp: sublist_Cons_right)

lemma lower_char_upper:
  assumes "65 \<le> (of_char c :: nat)" and "(of_char c :: nat) \<le> 90"
  shows "of_char (lower_char c) = (of_char c :: nat) + 32"
proof (cases c)
  case (Char b0 b1 b2 b3 b4 b5 b6 b7)
  with assms show ?thesis
    by (cases b0; cases b1; cases b2; cases b3; cases b4; cases b5; cases b6; cases b7)
       (simp_all add: lower_char_def)
qed

lemma lower_char_other:
  "\<not> (65 \<le> (of_char c :: nat) \<and> (of_char c :: nat) \<le> 90) \<Longrightarrow> lower_char c = c"
  by (auto simp: lower_char_def Let_def)

section \<open>Properties of the classifiers and the runners\<close>

lemma classify_ssh_error_cases:
  "classify_ssh_error err_text ec \<in> {''cmd_12'', ''cmd_10'', ''cmd_16'', ''cmd_18'', ''cmd_99''}"
  by (simp add: classify_ssh_error_def Let_def)

lemma parse_psql_error_cases:
  "parse_psql_error err_text ec \<in> {''pg_10'', ''pg_12'', ''pg_16'', ''pg_14'', ''pg_18'', ''pg_99''}"
  by (simp add: parse_psql_error_def Let_def)

lemma parse_psql_error_not_pg_0: "parse_psql_error err_text ec \<noteq> ''pg_0''"
  using parse_psql_error_cases [of err_text ec] by auto

lemma classify_ssh_error_not_cmd_0: "classify_ssh_error err_text ec \<noteq> ''cmd_0''"
  using classify_ssh_error_cases [of err_text ec] by auto

lemma classify_ssh_error_in_range: "classify_ssh_error err_text ec \<in> range shell_code"
proof -
  have "classify_ssh_error err_text ec
      \<in> shell_code ` {ShellAuthDenied, ShellNotFound, ShellTimeout, ShellGenericFailure, ShellUnknown}"
    using classify_ssh_error_cases [of err_text ec] by auto
  then show ?thesis by blast
qed

lemma parse_psql_error_in_range: "parse_psql_error err_text ec \<in> range sql_code"
proof -
  have "parse_psql_error err_text ec
      \<in> sql_code ` {SqlExecutableMissing, SqlAuthFailure, SqlUnreachable, SqlSyntaxError,
          SqlGenericFailure, SqlUnknown}"
    using parse_psql_error_cases [of err_text ec] by auto
  then show ?thesis by blast
qed

lemma ssh_99_not_shell_code: "''ssh_99'' \<noteq> shell_code c"
  by (cases c) simp_all

lemma ssh_99_not_sql_code: "''ssh_99'' \<noteq> sql_code c"
  by (cases c) simp_all

lemma run_ssh_command_raised:
  "ssh_client (ssh_full_cmd cmd sudo sudo_user) (Some timeout) = Inl e \<Longrightarrow>
   run_ssh_command ssh_client cmd sudo sudo_user timeout
     = (\<lparr>stderr = e, exit_code = - 1, command = cmd, stdout = ''''\<rparr>, ''ssh_99'')"
  by (simp add: run_ssh_command_def)

lemma run_ssh_command_returned:
  "ssh_client (ssh_full_cmd cmd sudo sudo_user) (Some timeout) = Inr (raw_out, raw_err, ec) \<Longrightarrow>
   run_ssh_command ssh_client cmd sudo sudo_user timeout
     = (\<lparr>stderr = strip raw_err, exit_code = ec, command = cmd, stdout = strip raw_out\<rparr>,
        if ec = 0 then ''cmd_0'' else classify_ssh_error (strip raw_err) ec)"
  by (simp add: run_ssh_command_def Let_def)

lemma run_postgres_raised:
  "ssh_client (pg_full_cmd l sql db_user db_name db_port psql_path db_password) None = Inl e \<Longrightarrow>
   run_postgres_command_over_ssh l ssh_client sql db_user db_name db_port psql_path db_password
     = Inr (\<lparr>stderr = ''SSH Execution Failed'', exit_code = - 1, data = PyNone\<rparr>, ''ssh_99'')"
  by (simp add: run_postgres_command_over_ssh_def)

text \<open>
  When the command was sent and read, the SQL runner returns a result and a code, except
  on a zero exit whose standard output makes \<open>json.loads\<close> raise something other than
  \<open>JSONDecodeError\<close>: that exception leaves the runner.
\<close>

lemma run_postgres_answered:
  "ssh_client (pg_full_cmd l sql db_user db_name db_port psql_path db_password) None
     = Inr (raw_out, raw_err, ec) \<Longrightarrow>
   run_postgres_command_over_ssh l ssh_client sql db_user db_name db_port psql_path db_password
     = (if ec \<noteq> 0
        then Inr (\<lparr>stderr = strip raw_err, exit_code = ec, data = PyNone\<rparr>,
                  parse_psql_error (strip raw_err) ec)
        else if strip raw_out = []
        then Inr (\<lparr>stderr = strip raw_err, exit_code = ec, data = PyList []\<rparr>, ''pg_0'')
        else case json_loads l (strip raw_out) of
               Parsed v \<Rightarrow> Inr (\<lparr>stderr = strip raw_err, exit_code = ec, data = v\<rparr>, ''pg_0'')
             | JSONDecodeError \<Rightarrow>
                 Inr (\<lparr>stderr = strip raw_err, exit_code = ec, data = PyStr (strip raw_out)\<rparr>,
                      ''pg_0'')
             | OtherError e \<Rightarrow> Inl e)"
  by (simp add: run_postgres_command_over_ssh_def Let_def split: json_outcome.splits)

lemma run_postgres_returned_code:
  assumes "ssh_client (pg_full_cmd l sql db_user db_name db_port psql_path db_password) None
     = Inr (raw_out, raw_err, ec)"
    and "run_postgres_command_over_ssh l ssh_client sql db_user db_name db_port psql_path db_password
     = Inr (res, c)"
  shows "c = (if ec = 0 then ''pg_0'' else parse_psql_error (strip raw_err) ec)"
  using assms by (auto simp: run_postgres_answered split: if_splits json_outcome.splits)

lemma run_postgres_raises_iff:
  assumes "ssh_client (pg_full_cmd l sql db_user db_name db_port psql_path db_password) None
     = Inr (raw_out, raw_err, ec)"
  shows "(run_postgres_command_over_ssh l ssh_client sql db_user db_name db_port psql_path db_password
            = Inl e)
       = (ec = 0 \<and> strip raw_out \<noteq> [] \<and> json_loads l (strip raw_out) = OtherError e)"
  using assms by (auto simp: run_postgres_answered split: json_outcome.splits)

section \<open>Properties of the SQL pipeline\<close>

text \<open>
  The loop over the databases stops in its first round when the port is not an integer.
  When it comes to its end it has added one entry per database, in order, each marked
  as succeeded exactly when its code is \<open>pg_0\<close>.
\<close>

lemma pg_run_databases_port_error:
  assumes "int_var (lib w) pg_vars ''PG_DB_PORT'' 5432 = Inl e" and "dbs \<noteq> []"
  shows "pg_run_databases w client name rendered_sql pg_vars dbs acc store = (Inl e, store)"
  using assms by (cases dbs) simp_all

lemma pg_run_databases_returned:
  assumes "pg_run_databases w client name rendered_sql pg_vars dbs acc store = (Inr rs, store')"
  shows "\<exists>new. rs = acc @ new \<and> map database new = dbs
           \<and> list_all (\<lambda>r. db_success r = (db_pg_code r = ''pg_0'')) new"
  using assms
proof (induction dbs arbitrary: acc store)
  case Nil
  then show ?case by simp
next
  case (Cons db_name rest)
  from Cons.prems obtain db_port where port: "int_var (lib w) pg_vars ''PG_DB_PORT'' 5432 = Inr db_port"
    by (cases "int_var (lib w) pg_vars ''PG_DB_PORT'' 5432") simp_all
  from Cons.prems port obtain result code_of_run where run:
    "run_postgres_command_over_ssh (lib w) client rendered_sql
       (get_or pg_vars ''PG_DB_USER'' ''postgres'') db_name db_port
       (get_or pg_vars ''PG_PSQL_PATH'' ''/usr/bin/psql'') (pg_vars ''PG_PASSWORD'')
     = Inr (result, code_of_run)"
    by (cases "run_postgres_command_over_ssh (lib w) client rendered_sql
       (get_or pg_vars ''PG_DB_USER'' ''postgres'') db_name db_port
       (get_or pg_vars ''PG_PSQL_PATH'' ''/usr/bin/psql'') (pg_vars ''PG_PASSWORD'')") auto
  let ?entry = "\<lparr>database = db_name, db_pg_code = code_of_run, db_exit_code = exit_code result,
                 db_success = (code_of_run = ''pg_0''), db_data = data result\<rparr>"
  let ?store = "log_execution w store name rendered_sql [] (stderr result) (exit_code result)
                  code_of_run (Some db_name)"
  from Cons.prems port run
  have "pg_run_databases w client name rendered_sql pg_vars rest (acc @ [?entry]) ?store
          = (Inr rs, store')"
    by simp
  from Cons.IH [OF this] obtain new where rest:
    "rs = (acc @ [?entry]) @ new" "map database new = rest"
    "list_all (\<lambda>r. db_success r = (db_pg_code r = ''pg_0'')) new"
    by blast
  show ?case
  proof (intro exI conjI)
    show "rs = acc @ (?entry # new)" using rest(1) by simp
    show "map database (?entry # new) = db_name # rest" using rest(2) by simp
    show "list_all (\<lambda>r. db_success r = (db_pg_code r = ''pg_0'')) (?entry # new)"
      using rest(3) by simp
  qed
qed

text \<open>The four early returns are failures without unit results.\<close>

lemma pg_failure_fields:
  "\<not> success (pg_failure h sc pc msg)" "results (pg_failure h sc pc msg) = None"
  "ssh_code (pg_failure h sc pc msg) = sc" "host (pg_failure h sc pc msg) = h"
  "pg_code (pg_failure h sc pc msg) = Some pc" "error (pg_failure h sc pc msg) = Some msg"
  by (simp_all add: pg_failure_def)

text \<open>
  What \<open>process_host\<close> returns once the host is configured, the session is open and
  the list of databases is known.
\<close>

lemma pg_process_host_try_resolved:
  assumes cfg: "get_config_for_host (config_store w) host_name = Inr (name, ssh_vars, pg_vars)"
    and tmo: "int_var (lib w) ssh_vars ''SSH_TIMEOUT'' 10 = Inr timeout"
    and con: "get_ssh_connection w (get_or ssh_vars ''SSH_USER'' ''root'') name
                (resolve_key_path (lib w) ssh_vars) timeout allow_new_hosts = (client, ''ssh_0'')"
    and sel: "pg_select_databases (session_of client) target_dbs exclude_dbs = Inr dbs"
  shows "pg_process_host_try w host_name cmd_name template_vars target_dbs exclude_dbs allow_new_hosts
     = (if dbs = [] then
          (Inr (pg_failure name ''ssh_0'' (Some ''pg_99'') ''No databases to process''),
           log_execution w [] name (''DB_LIST_ERROR: '' @ cmd_name) []
             ''No databases to process'' (- 1) ''pg_99'' None,
           client)
        else
          (case pg_rendered_sql w cmd_name template_vars of
             Inl e \<Rightarrow>
               (Inr (pg_failure name ''ssh_0'' (Some ''pg_99'') (''Template Error: '' @ e)),
                log_execution w [] name (''TEMPLATE_ERROR: '' @ cmd_name) []
                  (''Template Error: '' @ e) (- 1) ''pg_99'' None,
                client)
           | Inr rendered_sql \<Rightarrow>
               (case pg_run_databases w (session_of client) name rendered_sql pg_vars dbs [] [] of
                  (Inl e, store) \<Rightarrow> (Inl e, store, client)
                | (Inr rs, store) \<Rightarrow>
                    (Inr \<lparr>host = name, ssh_code = ''ssh_0'', pg_code = None, error = None,
                          results = Some rs,
                          success = (if rs \<noteq> [] then list_all db_success rs else False),
                          databases_processed = Some (length rs),
                          databases_failed = Some (length (filter (\<lambda>r. \<not> db_success r) rs))\<rparr>,
                     store, client))))"
  using cfg tmo con sel
  by (simp add: pg_process_host_try_def Let_def split: sum.splits prod.splits)

lemma returned_pg_process_host:
  "returned (pg_process_host w host_name cmd_name template_vars target_dbs exclude_dbs allow_new_hosts)
     = fst (pg_process_host_try w host_name cmd_name template_vars target_dbs exclude_dbs
              allow_new_hosts)"
  by (simp add: pg_process_host_def split: prod.splits)

lemma log_store_pg_process_host:
  "log_store (pg_process_host w host_name cmd_name template_vars target_dbs exclude_dbs allow_new_hosts)
     = fst (snd (pg_process_host_try w host_name cmd_name template_vars target_dbs exclude_dbs
              allow_new_hosts))"
  by (simp add: pg_process_host_def split: prod.splits)

text \<open>
  Every dictionary \<open>process_host\<close> returns is one of: an early failure, with no
  \<open>results\<close>; or the final dictionary, with session code \<open>ssh_0\<close> and \<open>success\<close> true
  exactly when the list of results is not empty and every entry succeeded.
\<close>

lemma pg_process_host_try_shape:
  assumes "fst (pg_process_host_try w host_name cmd_name template_vars target_dbs exclude_dbs
             allow_new_hosts) = Inr r"
  shows "(\<not> success r \<and> results r = None)
       \<or> (\<exists>rs. results r = Some rs \<and> ssh_code r = ''ssh_0''
              \<and> success r = (rs \<noteq> [] \<and> list_all db_success rs))"
proof (cases "get_config_for_host (config_store w) host_name")
  case (Inl e)
  with assms show ?thesis
    by (auto simp: pg_process_host_try_def Let_def pg_failure_fields)
next
  case (Inr cfg)
  obtain name ssh_vars pg_vars where cfg: "cfg = (name, ssh_vars, pg_vars)" by (cases cfg)
  show ?thesis
  proof (cases "int_var (lib w) ssh_vars ''SSH_TIMEOUT'' 10")
    case (Inl e)
    with assms Inr cfg show ?thesis by (simp add: pg_process_host_try_def)
  next
    case tmo: (Inr timeout)
    obtain client code_of_ssh where con:
      "get_ssh_connection w (get_or ssh_vars ''SSH_USER'' ''root'') name
         (resolve_key_path (lib w) ssh_vars) timeout allow_new_hosts = (client, code_of_ssh)"
      by (cases "get_ssh_connection w (get_or ssh_vars ''SSH_USER'' ''root'') name
         (resolve_key_path (lib w) ssh_vars) timeout allow_new_hosts")
    show ?thesis
    proof (cases "code_of_ssh = ''ssh_0''")
      case False
      with assms Inr cfg tmo con show ?thesis
        by (auto simp: pg_process_host_try_def Let_def pg_failure_fields)
    next
      case True
      show ?thesis
      proof (cases "pg_select_databases (session_of client) target_dbs exclude_dbs")
        case (Inl e)
        with assms Inr cfg tmo con True show ?thesis
          by (simp add: pg_process_host_try_def)
      next
        case sel: (Inr dbs)
        note eq = pg_process_host_try_resolved
          [OF Inr [unfolded cfg] tmo con [unfolded True] sel, of cmd_name template_vars]
        show ?thesis
        proof (cases "dbs = []")
          case True
          with assms eq show ?thesis by (auto simp: pg_failure_fields)
        next
          case False
          show ?thesis
          proof (cases "pg_rendered_sql w cmd_name template_vars")
            case (Inl e)
            with assms eq False show ?thesis by (auto simp: pg_failure_fields)
          next
            case (Inr rendered_sql)
            with assms eq False show ?thesis
              by (auto split: prod.splits sum.splits if_splits)
          qed
        qed
      qed
    qed
  qed
qed

text \<open>
  What \<open>get_ssh_connection\<close> asks of the SSH library: without \<open>allow_new_hosts\<close> it
  connects a client that has loaded the system host keys and rejects a missing host key;
  with it, a client that adds a missing host key. Whatever makes \<open>connect\<close> raise, the
  result is no session and a code that starts with \<open>ssh_99\<close>.
\<close>

lemma get_ssh_connection_result:
  "get_ssh_connection w username hostname key_path timeout allow_new_hosts
     = (case connect w
               \<lparr>missing_host_key_policy = (if allow_new_hosts then AutoAddPolicy else RejectPolicy),
                 system_host_keys_loaded = (\<not> allow_new_hosts)\<rparr>
               hostname username key_path timeout of
          Inr session \<Rightarrow> (Some session, ''ssh_0'')
        | Inl e \<Rightarrow> (None, ''ssh_99: '' @ e))"
  by (simp add: get_ssh_connection_def)

text \<open>
  A host that cannot be configured: the SQL pipeline returns a failure dictionary and
  logs it, the shell pipeline lets the exception through and logs nothing.
\<close>

lemma pg_process_host_config_failure:
  assumes "get_config_for_host (config_store w) host_name = Inl e"
  shows "pg_process_host w host_name cmd_name template_vars target_dbs exclude_dbs allow_new_hosts
     = \<lparr>returned = Inr (pg_failure host_name ''ssh_99'' None (''CONFIG_ERROR: '' @ e)),
        log_store = log_execution w [] host_name (''CONFIG_ERROR: '' @ cmd_name) []
                      (''CONFIG_ERROR: '' @ e) (- 1) ''ssh_99'' None,
        session_closed = False\<rparr>"
  using assms by (simp add: pg_process_host_def pg_process_host_try_def Let_def)

lemma ssh_process_host_config_raises:
  assumes "get_config_for_host (config_store w) host_name = Inl e"
  shows "ssh_process_host w host_name command_template template_vars sudo sudo_user timeout
           allow_new_hosts dry_run
     = \<lparr>returned = Inl e, log_store = [], session_closed = False\<rparr>"
  using assms by (simp add: ssh_process_host_def ssh_process_host_try_def Let_def)

text \<open>The definitions to unfold when a pipeline is run in the concrete world.\<close>

lemmas ex_defs = world0_def config0_def lib0_def session_a_def list_databases_cmd_def
  pg_process_host_def pg_process_host_try_def get_config_for_host_def host_vars_def int_var_def
  get_ssh_connection_def get_or_def resolve_key_path_def pg_select_databases_def truthy_def
  get_user_databases_def session_of_def pg_rendered_sql_def get_sql_template_def
  run_postgres_command_over_ssh_def pg_full_cmd_def str_int_def digit_char_def strip_def
  is_space_def rstrip_semicolon_def splitlines_def is_linebreak_def log_execution_def
  parse_psql_error_def lower_def lower_char_def pg_failure_def

text \<open>
  When an exclusion list covers every database the server lists, no database is left.
\<close>

lemma pg_select_databases_all_excluded:
  assumes "\<not> truthy target_dbs" and "get_user_databases client = Inr found"
    and "exclude_dbs = Some ex" and "set found \<subseteq> set ex"
  shows "pg_select_databases client target_dbs exclude_dbs = Inr []"
proof (cases "found = []")
  case True
  with assms show ?thesis by (simp add: pg_select_databases_def)
next
  case False
  with assms(4) have "ex \<noteq> []" by auto
  then have "truthy (Some ex)" by (cases ex) (simp_all add: truthy_def)
  moreover from assms(4) have "filter (\<lambda>db. db \<notin> set ex) found = []"
    by (auto simp: filter_empty_conv)
  ultimately show ?thesis using assms False by (simp add: pg_select_databases_def)
qed

section \<open>Properties of the dispatchers\<close>

text \<open>Each round of the loop of the SQL dispatcher increments one counter by one.\<close>

lemma pg_count_counted:
  "counted_as s (pg_count s future)
     (case future of
        Inl e \<Rightarrow> FAIL
      | Inr r \<Rightarrow> if success r then OK else if truthy (results r) then PARTIAL else FAIL)"
  by (simp add: pg_count_def counted_as_def split: sum.splits)

lemma counted_as_unique: "counted_as s s' b \<Longrightarrow> counted_as s s' b' \<Longrightarrow> b = b'"
proof -
  assume a: "counted_as s s' b" and b: "counted_as s s' b'"
  have sc: "success_count (s\<lparr>partial_count := p\<rparr>) = success_count s" for p by simp
  from a b show ?thesis
    by (cases b; cases b')
       (auto simp: counted_as_def dest: arg_cong [where f = success_count]
          arg_cong [where f = partial_count] arg_cong [where f = fail_count])
qed

lemma counted_as_iff:
  "counted_as s (pg_count s future) b
     = (b = (case future of
               Inl e \<Rightarrow> FAIL
             | Inr r \<Rightarrow> if success r then OK else if truthy (results r) then PARTIAL else FAIL))"
  using pg_count_counted [of s future] counted_as_unique by blast

lemma list_all_length_filter: "list_all P xs = (length (filter P xs) = length xs)"
proof (induction xs)
  case Nil
  show ?case by simp
next
  case (Cons x xs)
  have "length (filter P xs) \<le> length xs" by simp
  then have "length (filter P xs) \<noteq> Suc (length xs)" by linarith
  with Cons show ?case by auto
qed

lemma truthy_Some: "truthy (Some xs) = (xs \<noteq> [])"
  by (cases xs) (simp_all add: truthy_def)

lemma truthy_None: "\<not> truthy None"
  by (simp add: truthy_def)

lemma total_count_pg_count: "total_count (pg_count s future) = total_count s + 1"
  by (simp add: pg_count_def total_count_def split: sum.splits)

lemma total_count_foldl: "total_count (foldl pg_count s futures) = total_count s + length futures"
  by (induction futures arbitrary: s) (simp_all add: total_count_pg_count)

text \<open>
  When \<open>order\<close> lists every position once, \<open>as_completed\<close> yields every future once.
\<close>

lemma length_as_completed:
  assumes "distinct order" and "set order = {..<length futures}"
  shows "length (as_completed order futures) = length futures"
proof -
  have "filter (\<lambda>i. i < length futures) order = order"
    using assms(2) by (auto simp: filter_id_conv)
  moreover have "length order = length futures"
    using distinct_card [OF assms(1)] assms(2) by simp
  ultimately show ?thesis by (simp add: as_completed_def)
qed

lemma set_as_completed:
  assumes "set order = {..<length futures}"
  shows "set (as_completed order futures) = set futures"
proof -
  have "filter (\<lambda>i. i < length futures) order = order"
    using assms by (auto simp: filter_id_conv)
  then have "set (as_completed order futures) = (\<lambda>i. futures ! i) ` {..<length futures}"
    using assms by (simp add: as_completed_def)
  also have "\<dots> = set futures"
    by (auto simp: set_conv_nth)
  finally show ?thesis .
qed

text \<open>
  The futures of the SQL dispatcher are the pipelines' outcomes, so each round of its
  loop counts by the unit results: no unit result is a FAIL, unit results that all
  succeeded are a success, any other list of unit results is a PARTIAL.
\<close>

lemma length_filter_less:
  "(length (filter P xs) \<noteq> length xs) = (length (filter P xs) < length xs)"
proof -
  have "length (filter P xs) \<le> length xs" by simp
  then show ?thesis by linarith
qed

lemma pg_count_future:
  "pg_count s (pg_future w args h)
     = (if units_of (pg_future w args h) = [] then s\<lparr>fail_count := fail_count s + 1\<rparr>
        else if length (filter db_success (units_of (pg_future w args h)))
                  = length (units_of (pg_future w args h))
        then s\<lparr>success_count := success_count s + 1\<rparr>
        else s\<lparr>partial_count := partial_count s + 1\<rparr>)"
proof (cases "pg_future w args h")
  case (Inl e)
  then show ?thesis by (simp add: pg_count_def units_of_def)
next
  case (Inr r)
  then have "fst (pg_process_host_try w h (arg_cmd args) (template_vars_of (arg_var args))
      (arg_db args) (arg_db_exclude args) (arg_allow_new_hosts args)) = Inr r"
    by (simp add: pg_future_def returned_pg_process_host)
  from pg_process_host_try_shape [OF this] Inr show ?thesis
    by (auto simp: pg_count_def units_of_def truthy_Some truthy_None
          list_all_length_filter [symmetric])
qed

lemma pg_counts_foldl:
  "success_count (foldl pg_count s (map (pg_future w args) hs))
     = success_count s
       + length (filter (\<lambda>h. units_of (pg_future w args h) \<noteq> []
                   \<and> length (filter db_success (units_of (pg_future w args h)))
                       = length (units_of (pg_future w args h))) hs)
   \<and> partial_count (foldl pg_count s (map (pg_future w args) hs))
     = partial_count s
       + length (filter (\<lambda>h. units_of (pg_future w args h) \<noteq> []
                   \<and> length (filter db_success (units_of (pg_future w args h)))
                       < length (units_of (pg_future w args h))) hs)
   \<and> fail_count (foldl pg_count s (map (pg_future w args) hs))
     = fail_count s + length (filter (\<lambda>h. units_of (pg_future w args h) = []) hs)"
proof (induction hs arbitrary: s)
  case Nil
  show ?case by simp
next
  case (Cons h hs)
  show ?case
    using Cons.IH [of "pg_count s (pg_future w args h)"]
    by (simp add: pg_count_future length_filter_less [symmetric])
qed

text \<open>
  The order in which the futures complete does not change how many of them have a
  given property.
\<close>

lemma as_completed_map: "as_completed order (map f xs) = map f (as_completed order xs)"
  by (simp add: as_completed_def)

lemma length_filter_as_completed:
  assumes "distinct order" and "set order = {..<length xs}"
  shows "length (filter P (as_completed order xs)) = length (filter P xs)"
proof -
  have all: "filter (\<lambda>i. i < length xs) order = order"
    using assms(2) by (auto simp: filter_id_conv)
  have "length (filter P (as_completed order xs)) = length (filter (\<lambda>i. P (xs ! i)) order)"
    by (simp add: as_completed_def all filter_map comp_def)
  also have "\<dots> = card (set (filter (\<lambda>i. P (xs ! i)) order))"
  proof -
    have "distinct (filter (\<lambda>i. P (xs ! i)) order)"
      using assms(1) by (rule distinct_filter)
    from distinct_card [OF this] show ?thesis by (rule sym)
  qed
  also have "set (filter (\<lambda>i. P (xs ! i)) order) = {i. i < length xs \<and> P (xs ! i)}"
    using assms(2) by auto
  also have "card {i. i < length xs \<and> P (xs ! i)} = length (filter P xs)"
    by (simp add: length_filter_conv_card)
  finally show ?thesis .
qed

text \<open>
  The loop of the shell dispatcher: \<open>fail\<close> grows by one for every future that is not
  a full success, and a future that returned leaves its host in \<open>results\<close>.
\<close>

lemma tally_fail_foldl:
  "tally_fail (foldl ssh_count s futures)
     = tally_fail s + length (filter (\<lambda>hf. \<not> ssh_full_success (snd hf)) futures)"
  by (induction futures arbitrary: s)
     (auto simp: ssh_count_def ssh_full_success_def Let_def split: sum.splits prod.splits)

lemma tally_results_kept:
  "tally_results s h \<noteq> None \<Longrightarrow> tally_results (foldl ssh_count s futures) h \<noteq> None"
  by (induction futures arbitrary: s)
     (auto simp: ssh_count_def Let_def split: sum.splits prod.splits)

lemma tally_results_returned:
  "(h, Inr r) \<in> set futures \<Longrightarrow> tally_results (foldl ssh_count s futures) h \<noteq> None"
proof (induction futures arbitrary: s)
  case Nil
  then show ?case by simp
next
  case (Cons hf futures)
  show ?case
  proof (cases "hf = (h, Inr r)")
    case True
    have "tally_results (ssh_count s (h, Inr r)) h \<noteq> None"
      by (simp add: ssh_count_def Let_def)
    from tally_results_kept [OF this] True show ?thesis by simp
  next
    case False
    with Cons.prems have "(h, Inr r) \<in> set futures" by simp
    from Cons.IH [OF this] show ?thesis by simp
  qed
qed

text \<open>
  The status word \<open>print_pg_result\<close> prints for a dictionary \<open>process_host\<close> returned
  names the bucket \<open>main\<close> counts it in.
\<close>

lemma print_pg_result_bucket:
  assumes "returned (pg_process_host w host_name cmd_name template_vars target_dbs exclude_dbs
             allow_new_hosts) = Inr r"
  shows "counted_as s (pg_count s (Inr r)) (print_pg_result r)"
proof -
  from assms have "fst (pg_process_host_try w host_name cmd_name template_vars target_dbs
      exclude_dbs allow_new_hosts) = Inr r"
    by (simp add: returned_pg_process_host)
  from pg_process_host_try_shape [OF this] show ?thesis
    by (auto simp: counted_as_iff print_pg_result_def truthy_Some truthy_None)
qed

text \<open>
  The exit status of the shell dispatcher. When there is at least one host to process
  and the pool has at least one worker, it is 1 if some host's future is not a full
  success and 0 otherwise, whatever the order in which the futures complete. When there
  is no host to process it is 1.
\<close>

lemma ssh_exit_status_iff:
  "(hosts_of w (arg_host args) = Inr hs \<and> hs \<noteq> [] \<and> 0 < arg_workers args
      \<and> distinct order \<and> set order = {..<length hs}
      \<longrightarrow> ssh_exit_status (ssh_main w args order)
          = (if list_ex (\<lambda>h. \<not> ssh_full_success (returned (ssh_process_host w h
                   (case get_command_template (config_store w) (arg_cmd args) of
                      None \<Rightarrow> arg_cmd args
                    | Some t \<Rightarrow> t)
                   (template_vars_of (arg_var args)) (arg_sudo args) (arg_sudo_user args)
                   (arg_timeout args) (arg_allow_new_hosts args) (arg_dry_run args)))) hs
             then 1 else 0))
   \<and> (hosts_of w (arg_host args) = Inr [] \<longrightarrow> ssh_exit_status (ssh_main w args order) = 1)"
proof (intro conjI impI)
  assume "hosts_of w (arg_host args) = Inr []"
  then show "ssh_exit_status (ssh_main w args order) = 1"
    by (simp add: ssh_main_def ssh_exit_status_def Let_def)
next
  assume h: "hosts_of w (arg_host args) = Inr hs \<and> hs \<noteq> [] \<and> 0 < arg_workers args
      \<and> distinct order \<and> set order = {..<length hs}"
  let ?run = "\<lambda>h. returned (ssh_process_host w h
                   (case get_command_template (config_store w) (arg_cmd args) of
                      None \<Rightarrow> arg_cmd args
                    | Some t \<Rightarrow> t)
                   (template_vars_of (arg_var args)) (arg_sudo args) (arg_sudo_user args)
                   (arg_timeout args) (arg_allow_new_hosts args) (arg_dry_run args))"
  let ?futures = "map (\<lambda>h. (h, ?run h)) hs"
  let ?done = "as_completed order ?futures"
  let ?s = "foldl ssh_count \<lparr>tally_success = 0, tally_fail = 0, tally_results = Map.empty\<rparr> ?done"
  from h have hs: "hosts_of w (arg_host args) = Inr hs" and ne: "hs \<noteq> []"
    and workers: "\<not> arg_workers args \<le> 0" and order: "set order = {..<length ?futures}"
    by simp_all
  have main: "ssh_main w args order
      = (if length hs = 1 \<and> \<not> arg_verbose args \<and> tally_results ?s (hd hs) = None
         then Inl (''KeyError: '' @ hd hs)
         else Inr (if tally_fail ?s = 0 then 0 else 1))"
    using hs ne workers by (simp add: ssh_main_def Let_def)
  have done_set: "set ?done = set ?futures"
    using set_as_completed [OF order] .
  have fail_iff: "(tally_fail ?s = 0) = (\<not> list_ex (\<lambda>h. \<not> ssh_full_success (?run h)) hs)"
  proof -
    have "(tally_fail ?s = 0) = (\<forall>hf \<in> set ?done. ssh_full_success (snd hf))"
      by (simp add: tally_fail_foldl filter_empty_conv)
    also have "\<dots> = (\<forall>hf \<in> set ?futures. ssh_full_success (snd hf))"
      by (simp only: done_set)
    also have "\<dots> = (\<not> list_ex (\<lambda>h. \<not> ssh_full_success (?run h)) hs)"
      by (simp add: list_ex_iff)
    finally show ?thesis .
  qed
  show "ssh_exit_status (ssh_main w args order)
          = (if list_ex (\<lambda>h. \<not> ssh_full_success (?run h)) hs then 1 else 0)"
  proof (cases "length hs = 1 \<and> \<not> arg_verbose args \<and> tally_results ?s (hd hs) = None")
    case True
    then obtain h0 where h0: "hs = [h0]" by (cases hs) auto
    have "\<not> ssh_full_success (?run h0)"
    proof
      assume "ssh_full_success (?run h0)"
      then obtain r where r: "?run h0 = Inr r"
        by (cases "?run h0") (simp_all add: ssh_full_success_def)
      with h0 have "(h0, Inr r) \<in> set ?futures" by simp
      then have "(h0, Inr r) \<in> set ?done" by (simp only: done_set)
      from tally_results_returned [OF this,
          where s = "\<lparr>tally_success = 0, tally_fail = 0, tally_results = Map.empty\<rparr>"]
        True h0 show False by simp
    qed
    with h0 have "list_ex (\<lambda>h. \<not> ssh_full_success (?run h)) hs" by simp
    with True main show ?thesis by (simp add: ssh_exit_status_def)
  next
    case False
    with main have "ssh_main w args order = Inr (if tally_fail ?s = 0 then 0 else 1)"
      by simp
    with fail_iff show ?thesis by (simp add: ssh_exit_status_def)
  qed
qed

text \<open>
  In the concrete world: over both hosts, \<open>b\<close> cannot be reached and the exit status is
  1; for host \<open>a\<close> alone the command succeeds and the exit status is 0.
\<close>

lemma ssh_exit_status_example:
  "ssh_exit_status (ssh_main world0 ssh_args0 [1, 0]) = 1
   \<and> \<not> ssh_full_success (returned (ssh_process_host world0 ''b'' ''uptime'' Map.empty False
          ''root'' 60 False False))
   \<and> ssh_exit_status (ssh_main world0 (ssh_args0\<lparr>arg_host := Some ''a''\<rparr>) [0]) = 0
   \<and> ssh_full_success (returned (ssh_process_host world0 ''a'' ''uptime'' Map.empty False
          ''root'' 60 False False))"
proof -
  have args: "arg_cmd ssh_args0 = ''up''" "arg_host ssh_args0 = None" "arg_workers ssh_args0 = 5"
    "arg_var ssh_args0 = None" "arg_sudo ssh_args0 = False" "arg_sudo_user ssh_args0 = ''root''"
    "arg_timeout ssh_args0 = 60" "arg_allow_new_hosts ssh_args0 = False"
    "arg_dry_run ssh_args0 = False"
    by (simp_all add: ssh_args0_def)
  have template: "get_command_template (config_store world0) ''up'' = Some ''uptime''"
    by (simp add: get_command_template_def world0_def config0_def)
  have vars: "template_vars_of None = Map.empty"
    by (simp add: template_vars_of_def)
  have hosts: "hosts_of world0 None = Inr [''a'', ''b'']"
    by (simp add: hosts_of_def world0_def config0_def get_all_active_hosts_def)
  have host_a: "hosts_of world0 (Some ''a'') = Inr [''a'']"
    by (simp add: hosts_of_def)
  have run_a: "returned (ssh_process_host world0 ''a'' ''uptime'' Map.empty False ''root'' 60 False False)
      = Inr \<lparr>sh_host = ''a'', sh_success = True, sh_error = None, sh_cmd_code = Some ''cmd_0'',
              sh_exit_code = Some 0, sh_stdout = [], sh_stderr = []\<rparr>"
    by (simp add: ssh_process_host_def ssh_process_host_try_def run_ssh_command_def
          ssh_full_cmd_def ex_defs Let_def)
  have run_b: "returned (ssh_process_host world0 ''b'' ''uptime'' Map.empty False ''root'' 60 False False)
      = Inr \<lparr>sh_host = ''b'', sh_success = False, sh_error = Some ''SSH error: ssh_99: timed out'',
              sh_cmd_code = Some ''ssh_99: timed out'', sh_exit_code = Some (- 1), sh_stdout = [],
              sh_stderr = []\<rparr>"
    by (simp add: ssh_process_host_def ssh_process_host_try_def run_ssh_command_def
          ssh_full_cmd_def ex_defs Let_def)
  have both: "ssh_exit_status (ssh_main world0 ssh_args0 [1, 0]) = 1"
    using ssh_exit_status_iff [where w = world0 and args = ssh_args0 and hs = "[''a'', ''b'']"
        and order = "[1, 0]"]
    by (simp add: args template vars hosts run_a run_b ssh_full_success_def lessThan_Suc
          numeral_2_eq_2 insert_commute)
  have alone: "ssh_exit_status (ssh_main world0 (ssh_args0\<lparr>arg_host := Some ''a''\<rparr>) [0]) = 0"
    using ssh_exit_status_iff [where w = world0 and args = "ssh_args0\<lparr>arg_host := Some ''a''\<rparr>"
        and hs = "[''a'']" and order = "[0]"]
    by (simp add: args template vars host_a run_a ssh_full_success_def lessThan_Suc)
  from both alone run_a run_b show ?thesis
    by (simp add: ssh_full_success_def)
qed

section \<open>The concrete world\<close>

text \<open>
  The output with the integer of 5000 digits has no white space at its ends, and the
  parser of the example library raises on it.
\<close>

lemma strip_big_stdout:
  "strip big_stdout = big_stdout" "strip (big_stdout @ [CHR 0x0A]) = big_stdout"
  by (simp_all add: strip_def is_space_def big_stdout_def)

lemma big_stdout_not_empty:
  "big_stdout \<noteq> []"
  by (simp add: big_stdout_def)

lemma json_loads_big_stdout:
  "json_loads lib0 big_stdout
     = OtherError (''Exceeds the limit (4300 digits) for integer string conversion: value has ''
         @ ''5000 digits; use sys.set_int_max_str_digits() to increase the limit'')"
  by (simp add: lib0_def) (simp add: big_stdout_def)

text \<open>
  The SQL pipeline on the two hosts: on \<open>a\<close> both databases are run and one succeeds;
  \<open>b\<close> cannot be reached. The dispatcher counts one PARTIAL and one FAIL.
\<close>

lemma pg_future_host_a:
  "pg_future world0 pg_args0 ''a''
     = Inr \<lparr>host = ''a'', ssh_code = ''ssh_0'', pg_code = None, error = None,
          results = Some [\<lparr>database = ''db1'', db_pg_code = ''pg_0'', db_exit_code = 0,
                            db_success = True, db_data = PyList [PyInt 1]\<rparr>,
                          \<lparr>database = ''db2'', db_pg_code = ''pg_14'', db_exit_code = 1,
                            db_success = False, db_data = PyNone\<rparr>],
          success = False, databases_processed = Some 2, databases_failed = Some 1\<rparr>"
  by (simp add: pg_future_def pg_args0_def template_vars_of_def) (simp add: ex_defs Let_def)

lemma pg_future_host_b:
  "pg_future world0 pg_args0 ''b''
     = Inr (pg_failure ''b'' ''ssh_99: timed out'' None ''SSH Connection Failed: ssh_99: timed out'')"
  by (simp add: pg_future_def pg_args0_def template_vars_of_def) (simp add: ex_defs Let_def)

lemma hosts_of_world0:
  "hosts_of world0 None = Inr [''a'', ''b'']"
  by (simp add: hosts_of_def world0_def config0_def get_all_active_hosts_def)

lemma pg_main_both_hosts:
  "pg_main world0 pg_args0 [1, 0]
     = Inr (Some \<lparr>success_count = 0, fail_count = 1, partial_count = 1\<rparr>)"
proof -
  have args: "arg_host pg_args0 = None" "arg_workers pg_args0 = 5"
    by (simp_all add: pg_args0_def)
  show ?thesis
    by (simp add: pg_main_def args hosts_of_world0 as_completed_def pg_future_host_a
          pg_future_host_b pg_count_def truthy_def pg_failure_def Let_def)
qed

section \<open>The claims\<close>

text \<open>
  C1 (as amended). In the summary of the SQL dispatcher every host is counted in
  exactly one bucket, by the unit results its pipeline yields: the three counters add
  up to the number of hosts; success counts the hosts whose unit results all succeeded,
  PARTIAL the hosts with unit results of which \<open>k\<close> succeeded and \<open>k < N\<close> (\<open>k = 0\<close>
  included), and FAIL the hosts with no unit result. For a host whose list of databases
  is resolved and has \<open>N \<ge> 1\<close> entries and whose pipeline returns a dictionary: the
  session code is \<open>ssh_0\<close>; there is no unit result exactly when the template could not
  be fetched or rendered; and otherwise the unit results are those of all \<open>N\<close>
  databases, in order.
\<close>

theorem pg_main_buckets:
  "(hosts_of w (arg_host args) = Inr hs \<and> pg_main w args order = Inr (Some summary)
        \<and> distinct order \<and> set order = {..<length hs}
      \<longrightarrow> success_count summary
            = length (filter (\<lambda>h. units_of (pg_future w args h) \<noteq> []
                        \<and> length (filter db_success (units_of (pg_future w args h)))
                            = length (units_of (pg_future w args h))) hs)
          \<and> partial_count summary
            = length (filter (\<lambda>h. units_of (pg_future w args h) \<noteq> []
                        \<and> length (filter db_success (units_of (pg_future w args h)))
                            < length (units_of (pg_future w args h))) hs)
          \<and> fail_count summary
            = length (filter (\<lambda>h. units_of (pg_future w args h) = []) hs)
          \<and> success_count summary + partial_count summary + fail_count summary = length hs)
   \<and> (get_config_for_host (config_store w) host_name = Inr (name, ssh_vars, pg_vars)
        \<and> int_var (lib w) ssh_vars ''SSH_TIMEOUT'' 10 = Inr timeout
        \<and> get_ssh_connection w (get_or ssh_vars ''SSH_USER'' ''root'') name
             (resolve_key_path (lib w) ssh_vars) timeout (arg_allow_new_hosts args)
            = (client, ''ssh_0'')
        \<and> pg_select_databases (session_of client) (arg_db args) (arg_db_exclude args) = Inr dbs
        \<and> dbs \<noteq> []
        \<and> pg_future w args host_name = Inr r
      \<longrightarrow> ssh_code r = ''ssh_0''
          \<and> (units_of (Inr r) = [])
              = isl (pg_rendered_sql w (arg_cmd args) (template_vars_of (arg_var args)))
          \<and> (units_of (Inr r) = [] \<or> map database (units_of (Inr r)) = dbs))"
proof (intro conjI impI)
  assume h: "hosts_of w (arg_host args) = Inr hs \<and> pg_main w args order = Inr (Some summary)
        \<and> distinct order \<and> set order = {..<length hs}"
  then have hs: "hosts_of w (arg_host args) = Inr hs"
    and m: "pg_main w args order = Inr (Some summary)"
    and d: "distinct order" and o: "set order = {..<length hs}" by simp_all
  let ?zero = "\<lparr>success_count = 0, fail_count = 0, partial_count = 0\<rparr>"
  from m have "summary = foldl pg_count ?zero (as_completed order (map (pg_future w args) hs))"
    by (simp add: pg_main_def hs Let_def split: if_splits)
  then have summary: "summary = foldl pg_count ?zero (map (pg_future w args) (as_completed order hs))"
    by (simp add: as_completed_map)
  note counts = pg_counts_foldl [of ?zero w args "as_completed order hs"]
  note perm = length_filter_as_completed [OF d o]
  show "success_count summary
            = length (filter (\<lambda>h. units_of (pg_future w args h) \<noteq> []
                        \<and> length (filter db_success (units_of (pg_future w args h)))
                            = length (units_of (pg_future w args h))) hs)"
    using counts by (simp add: summary perm)
  show "partial_count summary
            = length (filter (\<lambda>h. units_of (pg_future w args h) \<noteq> []
                        \<and> length (filter db_success (units_of (pg_future w args h)))
                            < length (units_of (pg_future w args h))) hs)"
    using counts by (simp add: summary perm)
  show "fail_count summary = length (filter (\<lambda>h. units_of (pg_future w args h) = []) hs)"
    using counts by (simp add: summary perm)
  have "total_count summary = length (as_completed order (map (pg_future w args) hs))"
    unfolding summary as_completed_map
    by (simp add: total_count_foldl) (simp add: total_count_def)
  also have "\<dots> = length hs"
    using length_as_completed [of order "map (pg_future w args) hs"] d o by simp
  finally show "success_count summary + partial_count summary + fail_count summary = length hs"
    by (simp add: total_count_def)
next
  assume h: "get_config_for_host (config_store w) host_name = Inr (name, ssh_vars, pg_vars)
        \<and> int_var (lib w) ssh_vars ''SSH_TIMEOUT'' 10 = Inr timeout
        \<and> get_ssh_connection w (get_or ssh_vars ''SSH_USER'' ''root'') name
             (resolve_key_path (lib w) ssh_vars) timeout (arg_allow_new_hosts args)
            = (client, ''ssh_0'')
        \<and> pg_select_databases (session_of client) (arg_db args) (arg_db_exclude args) = Inr dbs
        \<and> dbs \<noteq> []
        \<and> pg_future w args host_name = Inr r"
  then have ne: "dbs \<noteq> []" by simp
  let ?attempt = "pg_process_host_try w host_name (arg_cmd args) (template_vars_of (arg_var args))
                (arg_db args) (arg_db_exclude args) (arg_allow_new_hosts args)"
  let ?sql = "pg_rendered_sql w (arg_cmd args) (template_vars_of (arg_var args))"
  from h have r: "fst ?attempt = Inr r"
    by (simp add: pg_future_def returned_pg_process_host)
  from h have eq: "?attempt
     = (case ?sql of
          Inl e \<Rightarrow>
            (Inr (pg_failure name ''ssh_0'' (Some ''pg_99'') (''Template Error: '' @ e)),
             log_execution w [] name (''TEMPLATE_ERROR: '' @ arg_cmd args) []
               (''Template Error: '' @ e) (- 1) ''pg_99'' None,
             client)
        | Inr rendered_sql \<Rightarrow>
            (case pg_run_databases w (session_of client) name rendered_sql pg_vars dbs [] [] of
               (Inl e, store) \<Rightarrow> (Inl e, store, client)
             | (Inr rs, store) \<Rightarrow>
                 (Inr \<lparr>host = name, ssh_code = ''ssh_0'', pg_code = None, error = None,
                       results = Some rs,
                       success = (if rs \<noteq> [] then list_all db_success rs else False),
                       databases_processed = Some (length rs),
                       databases_failed = Some (length (filter (\<lambda>r. \<not> db_success r) rs))\<rparr>,
                  store, client)))"
    using pg_process_host_try_resolved [of w host_name name ssh_vars pg_vars timeout
        "arg_allow_new_hosts args" client "arg_db args" "arg_db_exclude args" dbs "arg_cmd args"
        "template_vars_of (arg_var args)"]
    by simp
  have goal: "ssh_code r = ''ssh_0''
          \<and> (units_of (Inr r) = []) = isl ?sql
          \<and> (units_of (Inr r) = [] \<or> map database (units_of (Inr r)) = dbs)"
  proof (cases ?sql)
    case (Inl e)
    with eq r have "r = pg_failure name ''ssh_0'' (Some ''pg_99'') (''Template Error: '' @ e)"
      by simp
    with Inl show ?thesis by (simp add: units_of_def pg_failure_fields)
  next
    case (Inr rendered_sql)
    obtain res store where run:
      "pg_run_databases w (session_of client) name rendered_sql pg_vars dbs [] [] = (res, store)"
      by (cases "pg_run_databases w (session_of client) name rendered_sql pg_vars dbs [] []")
    show ?thesis
    proof (cases res)
      case (Inl e)
      with eq r Inr run show ?thesis by simp
    next
      case rs: (Inr rs)
      from pg_run_databases_returned [OF run [unfolded rs]]
      have names: "map database rs = dbs" by auto
      with ne have "rs \<noteq> []" by auto
      with eq r Inr run rs names show ?thesis
        by (auto simp: units_of_def)
    qed
  qed
  from goal show "ssh_code r = ''ssh_0''" by blast
  from goal show "(units_of (Inr r) = []) = isl ?sql" by blast
  from goal show "units_of (Inr r) = [] \<or> map database (units_of (Inr r)) = dbs" by blast
qed

text \<open>
  The witness: in the run over both hosts, host \<open>a\<close> has its two listed databases
  run, of which one succeeds, and is counted PARTIAL; \<open>b\<close> cannot be reached, has no
  unit result and is counted FAIL.
\<close>

theorem pg_main_buckets_witness:
  "pg_main world0 pg_args0 [1, 0]
     = Inr (Some \<lparr>success_count = 0, fail_count = 1, partial_count = 1\<rparr>)
   \<and> length (filter (\<lambda>h. units_of (pg_future world0 pg_args0 h) \<noteq> []
               \<and> length (filter db_success (units_of (pg_future world0 pg_args0 h)))
                   < length (units_of (pg_future world0 pg_args0 h))) [''a'', ''b'']) = 1
   \<and> length (filter (\<lambda>h. units_of (pg_future world0 pg_args0 h) = []) [''a'', ''b'']) = 1
   \<and> pg_select_databases session_a None None = Inr [''db1'', ''db2'']
   \<and> map database (units_of (pg_future world0 pg_args0 ''a'')) = [''db1'', ''db2'']
   \<and> length (filter db_success (units_of (pg_future world0 pg_args0 ''a''))) = 1
   \<and> ssh_code (projr (pg_future world0 pg_args0 ''a'')) = ''ssh_0''
   \<and> \<not> isl (pg_rendered_sql world0 ''one'' Map.empty)"
proof -
  let ?ra = "\<lparr>host = ''a'', ssh_code = ''ssh_0'', pg_code = None, error = None,
          results = Some [\<lparr>database = ''db1'', db_pg_code = ''pg_0'', db_exit_code = 0,
                            db_success = True, db_data = PyList [PyInt 1]\<rparr>,
                          \<lparr>database = ''db2'', db_pg_code = ''pg_14'', db_exit_code = 1,
                            db_success = False, db_data = PyNone\<rparr>],
          success = False, databases_processed = Some 2, databases_failed = Some 1\<rparr>"
  have args: "arg_cmd pg_args0 = ''one''" "arg_host pg_args0 = None" "arg_workers pg_args0 = 5"
    "arg_var pg_args0 = None" "arg_db pg_args0 = None" "arg_db_exclude pg_args0 = None"
    "arg_allow_new_hosts pg_args0 = False"
    by (simp_all add: pg_args0_def)
  have vars: "template_vars_of None = Map.empty"
    by (simp add: template_vars_of_def)
  have run_a: "pg_future world0 pg_args0 ''a'' = Inr ?ra"
    by (rule pg_future_host_a)
  have run_b: "pg_future world0 pg_args0 ''b''
      = Inr (pg_failure ''b'' ''ssh_99: timed out'' None ''SSH Connection Failed: ssh_99: timed out'')"
    by (rule pg_future_host_b)
  have hosts: "hosts_of world0 (arg_host pg_args0) = Inr [''a'', ''b'']"
    by (simp add: args hosts_of_world0)
  have main: "pg_main world0 pg_args0 [1, 0]
       = Inr (Some \<lparr>success_count = 0, fail_count = 1, partial_count = 1\<rparr>)"
    by (rule pg_main_both_hosts)
  have cfg: "get_config_for_host (config_store world0) ''a''
      = Inr (''a'', host_vars 1 (ssh_variables config0), host_vars 1 (postgre_variables config0))"
    by (simp add: world0_def config0_def get_config_for_host_def)
  have tmo: "int_var (lib world0) (host_vars 1 (ssh_variables config0)) ''SSH_TIMEOUT'' 10 = Inr 10"
    by (simp add: world0_def config0_def int_var_def host_vars_def)
  have con: "get_ssh_connection world0 (get_or (host_vars 1 (ssh_variables config0)) ''SSH_USER'' ''root'')
      ''a'' (resolve_key_path (lib world0) (host_vars 1 (ssh_variables config0))) 10 False
      = (Some session_a, ''ssh_0'')"
    by (simp add: world0_def get_ssh_connection_def)
  have sess: "session_of (Some session_a) = session_a"
    by (simp add: session_of_def)
  have sel: "pg_select_databases session_a None None = Inr [''db1'', ''db2'']"
    by (simp add: ex_defs Let_def)
  note inst = pg_main_buckets [where w = world0 and args = pg_args0 and hs = "[''a'', ''b'']"
      and order = "[1, 0]"
      and summary = "\<lparr>success_count = 0, fail_count = 1, partial_count = 1\<rparr>"
      and host_name = "''a''" and name = "''a''"
      and ssh_vars = "host_vars 1 (ssh_variables config0)"
      and pg_vars = "host_vars 1 (postgre_variables config0)" and timeout = 10
      and client = "Some session_a" and dbs = "[''db1'', ''db2'']" and r = ?ra]
  have counted: "length (filter (\<lambda>h. units_of (pg_future world0 pg_args0 h) \<noteq> []
               \<and> length (filter db_success (units_of (pg_future world0 pg_args0 h)))
                   < length (units_of (pg_future world0 pg_args0 h))) [''a'', ''b'']) = 1
     \<and> length (filter (\<lambda>h. units_of (pg_future world0 pg_args0 h) = []) [''a'', ''b'']) = 1"
    using inst hosts main by (simp add: lessThan_Suc numeral_2_eq_2 insert_commute)
  have host_a: "ssh_code ?ra = ''ssh_0''
     \<and> (units_of (Inr ?ra) = []) = isl (pg_rendered_sql world0 ''one'' Map.empty)
     \<and> (units_of (Inr ?ra) = [] \<or> map database (units_of (Inr ?ra)) = [''db1'', ''db2''])"
    using inst cfg tmo con sel run_a by (simp add: args vars sess units_of_def)
  have units: "units_of (Inr ?ra) \<noteq> [] \<and> length (filter db_success (units_of (Inr ?ra))) = 1"
    by (simp add: units_of_def)
  from main counted sel host_a units show ?thesis
    by (simp add: run_a units_of_def)
qed

text \<open>
  C1 as stated fails twice on host \<open>a\<close>. Asked for the database \<open>db2\<close> alone, its one
  unit fails: \<open>k = 0\<close> of \<open>N = 1\<close>, and the host is counted PARTIAL. Asked for a
  command that has no template, with both databases resolved, the host is counted FAIL
  although its session is open and its session code is \<open>ssh_0\<close>.
\<close>

theorem pg_bucket_partial_with_no_success:
  "pg_select_databases session_a (Some [''db2'']) None = Inr [''db2'']
   \<and> \<not> 0 < length (filter db_success
            (units_of (pg_future world0 (pg_args0\<lparr>arg_host := Some ''a'', arg_db := Some [''db2'']\<rparr>)
               ''a'')))
   \<and> pg_main world0 (pg_args0\<lparr>arg_host := Some ''a'', arg_db := Some [''db2'']\<rparr>) [0]
       = Inr (Some \<lparr>success_count = 0, fail_count = 0, partial_count = 1\<rparr>)
   \<and> pg_select_databases session_a None None = Inr [''db1'', ''db2'']
   \<and> pg_main world0 (pg_args0\<lparr>arg_host := Some ''a'', arg_cmd := ''nosuch''\<rparr>) [0]
       = Inr (Some \<lparr>success_count = 0, fail_count = 1, partial_count = 0\<rparr>)
   \<and> ssh_code (projr (pg_future world0 (pg_args0\<lparr>arg_host := Some ''a'', arg_cmd := ''nosuch''\<rparr>)
        ''a'')) = ''ssh_0''
   \<and> session_closed (pg_process_host world0 ''a'' ''nosuch'' Map.empty None None False)"
proof -
  have args: "arg_cmd pg_args0 = ''one''" "arg_workers pg_args0 = 5" "arg_var pg_args0 = None"
    "arg_db pg_args0 = None" "arg_db_exclude pg_args0 = None" "arg_allow_new_hosts pg_args0 = False"
    by (simp_all add: pg_args0_def)
  have vars: "template_vars_of None = Map.empty"
    by (simp add: template_vars_of_def)
  have a: "pg_select_databases session_a (Some [''db2'']) None = Inr [''db2'']"
    by (simp add: pg_select_databases_def truthy_def)
  have b: "pg_future world0 (pg_args0\<lparr>arg_host := Some ''a'', arg_db := Some [''db2'']\<rparr>) ''a''
      = Inr \<lparr>host = ''a'', ssh_code = ''ssh_0'', pg_code = None, error = None,
          results = Some [\<lparr>database = ''db2'', db_pg_code = ''pg_14'', db_exit_code = 1,
                            db_success = False, db_data = PyNone\<rparr>],
          success = False, databases_processed = Some 1, databases_failed = Some 1\<rparr>"
    by (simp add: pg_future_def args vars) (simp add: ex_defs Let_def)
  have c: "pg_main world0 (pg_args0\<lparr>arg_host := Some ''a'', arg_db := Some [''db2'']\<rparr>) [0]
       = Inr (Some \<lparr>success_count = 0, fail_count = 0, partial_count = 1\<rparr>)"
    by (simp add: pg_main_def hosts_of_def args as_completed_def b pg_count_def truthy_def Let_def)
  have d: "pg_select_databases session_a None None = Inr [''db1'', ''db2'']"
    by (simp add: ex_defs Let_def)
  have e: "pg_process_host world0 ''a'' ''nosuch'' Map.empty None None False
      = \<lparr>returned = Inr (pg_failure ''a'' ''ssh_0'' (Some ''pg_99'')
            (''Template Error: SQL command '' @ [CHR 0x27] @ ''nosuch'' @ [CHR 0x27]
              @ '' not found in table commands'')),
         log_store = [\<lparr>target_host = ''a'', query_text = ''TEMPLATE_ERROR: nosuch'',
            database_name = None, code = ''pg_99'', logged_exit_code = - 1, stdout_text = [],
            stderr_text = ''Template Error: SQL command '' @ [CHR 0x27] @ ''nosuch'' @ [CHR 0x27]
              @ '' not found in table commands''\<rparr>],
         session_closed = True\<rparr>"
    by (simp add: ex_defs Let_def)
  have f: "pg_future world0 (pg_args0\<lparr>arg_host := Some ''a'', arg_cmd := ''nosuch''\<rparr>) ''a''
      = Inr (pg_failure ''a'' ''ssh_0'' (Some ''pg_99'')
            (''Template Error: SQL command '' @ [CHR 0x27] @ ''nosuch'' @ [CHR 0x27]
              @ '' not found in table commands''))"
    by (simp add: pg_future_def args vars e)
  have g: "pg_main world0 (pg_args0\<lparr>arg_host := Some ''a'', arg_cmd := ''nosuch''\<rparr>) [0]
       = Inr (Some \<lparr>success_count = 0, fail_count = 1, partial_count = 0\<rparr>)"
    by (simp add: pg_main_def hosts_of_def args as_completed_def f pg_count_def truthy_def
          pg_failure_def Let_def)
  show ?thesis
    by (simp add: a b c d e f g units_of_def pg_failure_def)
qed

text \<open>
  C2. In every dictionary the SQL host pipeline returns, \<open>success\<close> is true exactly
  when the session code is \<open>ssh_0\<close>, the list of unit results is not empty and every
  unit in it succeeded. A host whose list of databases is empty once it is resolved
  gets the failure dictionary with code \<open>pg_99\<close>, no unit results and one log record;
  and excluding every database the server lists leaves an empty list.
\<close>

theorem pg_outcome_success_iff:
  "(returned (pg_process_host w host_name cmd_name template_vars target_dbs exclude_dbs
               allow_new_hosts) = Inr r
      \<longrightarrow> success r = (ssh_code r = ''ssh_0'' \<and> units_of (Inr r) \<noteq> []
                        \<and> list_all db_success (units_of (Inr r))))
   \<and> (get_config_for_host (config_store w) host_name = Inr (name, ssh_vars, pg_vars)
        \<and> int_var (lib w) ssh_vars ''SSH_TIMEOUT'' 10 = Inr timeout
        \<and> get_ssh_connection w (get_or ssh_vars ''SSH_USER'' ''root'') name
             (resolve_key_path (lib w) ssh_vars) timeout allow_new_hosts = (client, ''ssh_0'')
        \<and> pg_select_databases (session_of client) target_dbs exclude_dbs = Inr []
      \<longrightarrow> returned (pg_process_host w host_name cmd_name template_vars target_dbs exclude_dbs
                     allow_new_hosts)
            = Inr (pg_failure name ''ssh_0'' (Some ''pg_99'') ''No databases to process'')
          \<and> \<not> success (pg_failure name ''ssh_0'' (Some ''pg_99'') ''No databases to process'')
          \<and> log_store (pg_process_host w host_name cmd_name template_vars target_dbs exclude_dbs
                          allow_new_hosts)
            = log_execution w [] name (''DB_LIST_ERROR: '' @ cmd_name) []
                ''No databases to process'' (- 1) ''pg_99'' None)
   \<and> (\<not> truthy target_dbs \<and> get_user_databases (session_of client) = Inr found
        \<and> exclude_dbs = Some ex \<and> set found \<subseteq> set ex
      \<longrightarrow> pg_select_databases (session_of client) target_dbs exclude_dbs = Inr [])"
proof (intro conjI impI)
  assume ret: "returned (pg_process_host w host_name cmd_name template_vars target_dbs exclude_dbs
               allow_new_hosts) = Inr r"
  then have "fst (pg_process_host_try w host_name cmd_name template_vars target_dbs exclude_dbs
               allow_new_hosts) = Inr r"
    by (simp add: returned_pg_process_host)
  from pg_process_host_try_shape [OF this]
  show "success r = (ssh_code r = ''ssh_0'' \<and> units_of (Inr r) \<noteq> []
                        \<and> list_all db_success (units_of (Inr r)))"
    by (auto simp: units_of_def)
next
  assume h: "get_config_for_host (config_store w) host_name = Inr (name, ssh_vars, pg_vars)
        \<and> int_var (lib w) ssh_vars ''SSH_TIMEOUT'' 10 = Inr timeout
        \<and> get_ssh_connection w (get_or ssh_vars ''SSH_USER'' ''root'') name
             (resolve_key_path (lib w) ssh_vars) timeout allow_new_hosts = (client, ''ssh_0'')
        \<and> pg_select_databases (session_of client) target_dbs exclude_dbs = Inr []"
  then have eq: "pg_process_host_try w host_name cmd_name template_vars target_dbs exclude_dbs
        allow_new_hosts
      = (Inr (pg_failure name ''ssh_0'' (Some ''pg_99'') ''No databases to process''),
         log_execution w [] name (''DB_LIST_ERROR: '' @ cmd_name) []
           ''No databases to process'' (- 1) ''pg_99'' None,
         client)"
    using pg_process_host_try_resolved [of w host_name name ssh_vars pg_vars timeout
        allow_new_hosts client target_dbs exclude_dbs "[]" cmd_name template_vars]
    by simp
  show "returned (pg_process_host w host_name cmd_name template_vars target_dbs exclude_dbs
                     allow_new_hosts)
            = Inr (pg_failure name ''ssh_0'' (Some ''pg_99'') ''No databases to process'')"
    using eq by (simp add: returned_pg_process_host)
  show "\<not> success (pg_failure name ''ssh_0'' (Some ''pg_99'') ''No databases to process'')"
    by (simp add: pg_failure_fields)
  show "log_store (pg_process_host w host_name cmd_name template_vars target_dbs exclude_dbs
                          allow_new_hosts)
            = log_execution w [] name (''DB_LIST_ERROR: '' @ cmd_name) []
                ''No databases to process'' (- 1) ''pg_99'' None"
    using eq by (simp add: log_store_pg_process_host)
next
  assume "\<not> truthy target_dbs \<and> get_user_databases (session_of client) = Inr found
        \<and> exclude_dbs = Some ex \<and> set found \<subseteq> set ex"
  then show "pg_select_databases (session_of client) target_dbs exclude_dbs = Inr []"
    using pg_select_databases_all_excluded by blast
qed

text \<open>
  The witness: on host \<open>a\<close>, excluding \<open>db2\<close> gives a success with one unit; excluding
  both listed databases gives the failure dictionary and one log record.
\<close>

theorem pg_outcome_success_iff_witness:
  "(\<exists>r. returned (pg_process_host world0 ''a'' ''one'' Map.empty None (Some [''db2'']) False) = Inr r
        \<and> success r \<and> ssh_code r = ''ssh_0'' \<and> map database (units_of (Inr r)) = [''db1'']
        \<and> list_all db_success (units_of (Inr r)))
   \<and> get_user_databases session_a = Inr [''db1'', ''db2'']
   \<and> pg_select_databases session_a None (Some [''db2'', ''db1'']) = Inr []
   \<and> returned (pg_process_host world0 ''a'' ''one'' Map.empty None (Some [''db2'', ''db1'']) False)
       = Inr (pg_failure ''a'' ''ssh_0'' (Some ''pg_99'') ''No databases to process'')
   \<and> log_store (pg_process_host world0 ''a'' ''one'' Map.empty None (Some [''db2'', ''db1'']) False)
       = [\<lparr>target_host = ''a'', query_text = ''DB_LIST_ERROR: one'', database_name = None,
           code = ''pg_99'', logged_exit_code = - 1, stdout_text = [],
           stderr_text = ''No databases to process''\<rparr>]"
proof -
  let ?r = "\<lparr>host = ''a'', ssh_code = ''ssh_0'', pg_code = None, error = None,
          results = Some [\<lparr>database = ''db1'', db_pg_code = ''pg_0'', db_exit_code = 0,
                            db_success = True, db_data = PyList [PyInt 1]\<rparr>],
          success = True, databases_processed = Some 1, databases_failed = Some 0\<rparr>"
  have run: "returned (pg_process_host world0 ''a'' ''one'' Map.empty None (Some [''db2'']) False)
      = Inr ?r"
    by (simp add: ex_defs Let_def)
  have cfg: "get_config_for_host (config_store world0) ''a''
      = Inr (''a'', host_vars 1 (ssh_variables config0), host_vars 1 (postgre_variables config0))"
    by (simp add: world0_def config0_def get_config_for_host_def)
  have tmo: "int_var (lib world0) (host_vars 1 (ssh_variables config0)) ''SSH_TIMEOUT'' 10 = Inr 10"
    by (simp add: world0_def config0_def int_var_def host_vars_def)
  have con: "get_ssh_connection world0 (get_or (host_vars 1 (ssh_variables config0)) ''SSH_USER'' ''root'')
      ''a'' (resolve_key_path (lib world0) (host_vars 1 (ssh_variables config0))) 10 False
      = (Some session_a, ''ssh_0'')"
    by (simp add: world0_def get_ssh_connection_def)
  have found: "get_user_databases (session_of (Some session_a)) = Inr [''db1'', ''db2'']"
    by (simp add: ex_defs Let_def)
  have sess: "session_of (Some session_a) = session_a"
    by (simp add: session_of_def)
  note inst = pg_outcome_success_iff [where w = world0 and host_name = "''a''" and cmd_name = "''one''"
      and template_vars = Map.empty and target_dbs = None and allow_new_hosts = False
      and name = "''a''" and ssh_vars = "host_vars 1 (ssh_variables config0)"
      and pg_vars = "host_vars 1 (postgre_variables config0)" and timeout = 10
      and client = "Some session_a" and found = "[''db1'', ''db2'']"]
  have sel: "pg_select_databases (session_of (Some session_a)) None (Some [''db2'', ''db1'']) = Inr []"
    using inst [where exclude_dbs = "Some [''db2'', ''db1'']" and ex = "[''db2'', ''db1'']"] found
    by (simp add: truthy_def)
  have first: "success ?r \<and> ssh_code ?r = ''ssh_0'' \<and> map database (units_of (Inr ?r)) = [''db1'']
        \<and> list_all db_success (units_of (Inr ?r))"
    using inst [where exclude_dbs = "Some [''db2'']" and r = ?r] run
    by (simp add: units_of_def)
  have second: "returned (pg_process_host world0 ''a'' ''one'' Map.empty None (Some [''db2'', ''db1'']) False)
       = Inr (pg_failure ''a'' ''ssh_0'' (Some ''pg_99'') ''No databases to process'')
     \<and> log_store (pg_process_host world0 ''a'' ''one'' Map.empty None (Some [''db2'', ''db1'']) False)
       = log_execution world0 [] ''a'' (''DB_LIST_ERROR: '' @ ''one'') []
                ''No databases to process'' (- 1) ''pg_99'' None"
    using inst [where exclude_dbs = "Some [''db2'', ''db1'']"] cfg tmo con sel
    by simp
  have logged: "log_execution world0 [] ''a'' (''DB_LIST_ERROR: '' @ ''one'') []
                ''No databases to process'' (- 1) ''pg_99'' None
       = [\<lparr>target_host = ''a'', query_text = ''DB_LIST_ERROR: one'', database_name = None,
           code = ''pg_99'', logged_exit_code = - 1, stdout_text = [],
           stderr_text = ''No databases to process''\<rparr>]"
    by (simp add: log_execution_def world0_def)
  from run first found sel second logged sess show ?thesis by simp
qed

text \<open>
  C3, at the failing input. The host \<open>zz\<close> is not in the configuration database. The
  SQL pipeline returns a failure dictionary with the code \<open>ssh_99\<close> and writes one log
  record, with no session attempted. The shell pipeline raises the exception of
  \<open>get_config_for_host\<close> out of \<open>process_host\<close> and writes no log record; it does the
  same when the template engine raises.
\<close>

theorem ssh_process_host_config_failure_escapes:
  "pg_process_host world0 ''zz'' ''one'' Map.empty None None False
     = \<lparr>returned = Inr (pg_failure ''zz'' ''ssh_99'' None
            (''CONFIG_ERROR: Host '' @ [CHR 0x27] @ ''zz'' @ [CHR 0x27] @ '' not found or disabled'')),
        log_store = [\<lparr>target_host = ''zz'', query_text = ''CONFIG_ERROR: one'', database_name = None,
            code = ''ssh_99'', logged_exit_code = - 1, stdout_text = [],
            stderr_text = ''CONFIG_ERROR: Host '' @ [CHR 0x27] @ ''zz'' @ [CHR 0x27]
              @ '' not found or disabled''\<rparr>],
        session_closed = False\<rparr>
   \<and> ssh_process_host world0 ''zz'' ''uptime'' Map.empty False ''root'' 60 False False
     = \<lparr>returned = Inl (''Host '' @ [CHR 0x27] @ ''zz'' @ [CHR 0x27] @ '' not found or disabled''),
        log_store = [], session_closed = False\<rparr>
   \<and> ssh_process_host (world0\<lparr>render_sql := \<lambda>template_str vars. Inl ''name is undefined''\<rparr>)
        ''a'' ''uptime {{ name }}'' Map.empty False ''root'' 60 False False
     = \<lparr>returned = Inl ''name is undefined'', log_store = [], session_closed = False\<rparr>"
  by (simp add: ssh_process_host_def ssh_process_host_try_def ex_defs Let_def)

text \<open>
  C4 (as amended). \<open>_classify_ssh_error\<close> is an ordered first-match rule table over the
  lower-cased standard error: \<open>permission denied\<close> gives AuthDenied (\<open>cmd_12\<close>); else
  \<open>not found\<close> or \<open>no such file\<close> gives NotFound (\<open>cmd_10\<close>); else \<open>timeout\<close> gives
  Timeout (\<open>cmd_16\<close>); else \<open>sudo\<close> together with \<open>password\<close> gives AuthDenied; else a
  non-zero exit code gives GenericFailure (\<open>cmd_18\<close>); else the result is the Unknown
  code \<open>cmd_99\<close>. The classifier never yields the success code \<open>cmd_0\<close>.
\<close>

theorem classify_ssh_error_rule_table:
  "classify_ssh_error err_text ec = shell_code
     (if str_in ''permission denied'' (lower err_text) then ShellAuthDenied
      else if str_in ''not found'' (lower err_text) \<or> str_in ''no such file'' (lower err_text)
        then ShellNotFound
      else if str_in ''timeout'' (lower err_text) then ShellTimeout
      else if str_in ''sudo'' (lower err_text) \<and> str_in ''password'' (lower err_text)
        then ShellAuthDenied
      else if ec \<noteq> 0 then ShellGenericFailure
      else ShellUnknown)
   \<and> classify_ssh_error err_text ec \<noteq> shell_code ShellSuccess"
proof
  show "classify_ssh_error err_text ec \<noteq> shell_code ShellSuccess"
    using classify_ssh_error_not_cmd_0 [of err_text ec] by simp
qed (auto simp: classify_ssh_error_def Let_def)

theorem classify_ssh_error_rule_table_witness:
  "classify_ssh_error ''bash: pg_dump: command not found'' 127 = ''cmd_10''
   \<and> classify_ssh_error ''sudo: a password is required'' 1 = ''cmd_12''
   \<and> classify_ssh_error ''boom'' 3 = ''cmd_18''
   \<and> classify_ssh_error '''' 0 = ''cmd_99''"
  using classify_ssh_error_rule_table [of "''bash: pg_dump: command not found''" 127]
    classify_ssh_error_rule_table [of "''sudo: a password is required''" 1]
    classify_ssh_error_rule_table [of "''boom''" 3]
    classify_ssh_error_rule_table [of "''''" 0]
  by (simp add: lower_def lower_char_def)

text \<open>
  C4 as stated fails on its last rule: with no matching text and exit code 0 the
  classifier returns \<open>cmd_99\<close>, which is not the success code.
\<close>

theorem classify_ssh_error_else_not_success:
  "classify_ssh_error '''' 0 = ''cmd_99'' \<and> classify_ssh_error '''' 0 \<noteq> shell_code ShellSuccess"
  by (simp add: classify_ssh_error_def lower_def)

text \<open>
  C5 (as amended). \<open>_parse_psql_error\<close> is an ordered first-match rule table over the
  lower-cased standard error: \<open>psql: not found\<close> or \<open>command not found\<close> gives
  ExecutableMissing (\<open>pg_10\<close>); else \<open>fatal\<close> with \<open>password\<close> gives AuthFailure
  (\<open>pg_12\<close>); else \<open>fatal\<close> with \<open>could not connect\<close> or \<open>no route\<close> gives Unreachable
  (\<open>pg_16\<close>); else \<open>syntax error\<close> or \<open>error:\<close> gives SyntaxError (\<open>pg_14\<close>); else a
  non-zero exit code gives GenericFailure (\<open>pg_18\<close>); else the result is the distinct
  Unknown code \<open>pg_99\<close>. The classifier never yields the success code \<open>pg_0\<close>.
\<close>

theorem parse_psql_error_rule_table:
  "parse_psql_error err_text ec = sql_code
     (if str_in ''psql: not found'' (lower err_text) \<or> str_in ''command not found'' (lower err_text)
        then SqlExecutableMissing
      else if str_in ''fatal'' (lower err_text) \<and> str_in ''password'' (lower err_text)
        then SqlAuthFailure
      else if str_in ''fatal'' (lower err_text)
           \<and> (str_in ''could not connect'' (lower err_text) \<or> str_in ''no route'' (lower err_text))
        then SqlUnreachable
      else if str_in ''syntax error'' (lower err_text) \<or> str_in ''error:'' (lower err_text)
        then SqlSyntaxError
      else if ec \<noteq> 0 then SqlGenericFailure
      else SqlUnknown)
   \<and> parse_psql_error err_text ec \<noteq> sql_code SqlSuccess"
proof
  show "parse_psql_error err_text ec \<noteq> sql_code SqlSuccess"
    using parse_psql_error_not_pg_0 [of err_text ec] by simp
qed (auto simp: parse_psql_error_def Let_def)

theorem parse_psql_error_rule_table_witness:
  "parse_psql_error ''psql: FATAL:  password authentication failed'' 2 = ''pg_12''
   \<and> parse_psql_error ''ERROR:  duplicate key value'' 3 = ''pg_14''
   \<and> parse_psql_error ''killed'' 137 = ''pg_18''
   \<and> parse_psql_error '''' 0 = ''pg_99''"
  using parse_psql_error_rule_table [of "''psql: FATAL:  password authentication failed''" 2]
    parse_psql_error_rule_table [of "''ERROR:  duplicate key value''" 3]
    parse_psql_error_rule_table [of "''killed''" 137]
    parse_psql_error_rule_table [of "''''" 0]
  by (simp add: lower_def lower_char_def)

text \<open>
  C5 as stated fails on its last rule: with no matching text and exit code 0 the
  classifier returns \<open>pg_99\<close>, which is not the success code.
\<close>

theorem parse_psql_error_else_not_success:
  "parse_psql_error '''' 0 = ''pg_99'' \<and> parse_psql_error '''' 0 \<noteq> sql_code SqlSuccess"
  by (simp add: parse_psql_error_def lower_def)

text \<open>
  C6, at the failing input. The statement selects one integer of 5000 digits,
  the remote exit code is 0 and the standard output is a JSON array. \<open>json.loads\<close>
  raises the \<open>ValueError\<close> of the integer digit limit, the runner catches
  \<open>JSONDecodeError\<close> alone, and the exception leaves the runner: no result and no code
  are returned. On an output that is not JSON the same runner does what the claim says:
  it returns \<open>pg_0\<close> with the stripped text as data.
\<close>

theorem run_postgres_exit_zero_raises:
  "run_postgres_command_over_ssh lib0 (\<lambda>c t. Inr (big_stdout @ [CHR 0x0A], [], 0))
      ''SELECT repeat(chr(49), 5000)::numeric AS f'' ''postgres'' ''db1'' 5432 ''/usr/bin/psql'' None
     = Inl (''Exceeds the limit (4300 digits) for integer string conversion: value has ''
         @ ''5000 digits; use sys.set_int_max_str_digits() to increase the limit'')
   \<and> run_postgres_command_over_ssh lib0 (\<lambda>c t. Inr (''not json'' @ [CHR 0x0A], [], 0))
      ''SELECT repeat(chr(49), 5000)::numeric AS f'' ''postgres'' ''db1'' 5432 ''/usr/bin/psql'' None
     = Inr (\<lparr>stderr = [], exit_code = 0, data = PyStr ''not json''\<rparr>, ''pg_0'')"
proof
  have err: "strip [] = []"
    by (simp add: strip_def)
  show "run_postgres_command_over_ssh lib0 (\<lambda>c t. Inr (big_stdout @ [CHR 0x0A], [], 0))
      ''SELECT repeat(chr(49), 5000)::numeric AS f'' ''postgres'' ''db1'' 5432 ''/usr/bin/psql'' None
     = Inl (''Exceeds the limit (4300 digits) for integer string conversion: value has ''
         @ ''5000 digits; use sys.set_int_max_str_digits() to increase the limit'')"
    by (simp add: run_postgres_answered strip_big_stdout big_stdout_not_empty
          json_loads_big_stdout)
  show "run_postgres_command_over_ssh lib0 (\<lambda>c t. Inr (''not json'' @ [CHR 0x0A], [], 0))
      ''SELECT repeat(chr(49), 5000)::numeric AS f'' ''postgres'' ''db1'' 5432 ''/usr/bin/psql'' None
     = Inr (\<lparr>stderr = [], exit_code = 0, data = PyStr ''not json''\<rparr>, ''pg_0'')"
    by (simp add: run_postgres_answered strip_def is_space_def lib0_def big_stdout_def)
qed

text \<open>
  C7. In both runners an exception raised while the command is sent or its output is
  read yields the code \<open>ssh_99\<close>; an invocation that returns yields a code of the
  in-session family of its kind (\<open>cmd_...\<close> for the shell runner, \<open>pg_...\<close> for the SQL
  runner); and \<open>ssh_99\<close> belongs to neither family, so it differs from every in-session
  code, the GenericFailure codes \<open>cmd_18\<close> and \<open>pg_18\<close> included. (When the command was
  sent and read, the SQL runner returns unless the exit code is 0 and \<open>json.loads\<close>
  raises something other than \<open>JSONDecodeError\<close> on the stripped output.)
\<close>

theorem transport_exception_code:
  "(case ssh_client (ssh_full_cmd cmd sudo sudo_user) (Some timeout) of
      Inl e \<Rightarrow> snd (run_ssh_command ssh_client cmd sudo sudo_user timeout) = ''ssh_99''
    | Inr r \<Rightarrow> snd (run_ssh_command ssh_client cmd sudo sudo_user timeout) \<in> range shell_code)
   \<and> (case pg_client (pg_full_cmd l sql db_user db_name db_port psql_path db_password) None of
         Inl e \<Rightarrow> run_postgres_command_over_ssh l pg_client sql db_user db_name db_port
                     psql_path db_password
                   = Inr (\<lparr>stderr = ''SSH Execution Failed'', exit_code = - 1, data = PyNone\<rparr>,
                          ''ssh_99'')
       | Inr r \<Rightarrow> (case run_postgres_command_over_ssh l pg_client sql db_user db_name db_port
                          psql_path db_password of
                     Inl raised \<Rightarrow> snd (snd r) = 0 \<and> strip (fst r) \<noteq> []
                                    \<and> json_loads l (strip (fst r)) = OtherError raised
                   | Inr returned_pair \<Rightarrow> snd returned_pair \<in> range sql_code))
   \<and> ''ssh_99'' \<notin> range shell_code \<union> range sql_code"
proof (intro conjI)
  show "case ssh_client (ssh_full_cmd cmd sudo sudo_user) (Some timeout) of
      Inl e \<Rightarrow> snd (run_ssh_command ssh_client cmd sudo sudo_user timeout) = ''ssh_99''
    | Inr r \<Rightarrow> snd (run_ssh_command ssh_client cmd sudo sudo_user timeout) \<in> range shell_code"
  proof (cases "ssh_client (ssh_full_cmd cmd sudo sudo_user) (Some timeout)")
    case (Inl e)
    then show ?thesis by (simp add: run_ssh_command_raised)
  next
    case (Inr r)
    obtain raw_out raw_err ec where r: "r = (raw_out, raw_err, ec)" by (cases r)
    have "(''cmd_0'' :: string) = shell_code ShellSuccess" by simp
    then have "(''cmd_0'' :: string) \<in> range shell_code" by blast
    with Inr r show ?thesis
      by (simp add: run_ssh_command_returned classify_ssh_error_in_range)
  qed
  let ?run = "run_postgres_command_over_ssh l pg_client sql db_user db_name db_port psql_path
                db_password"
  show "case pg_client (pg_full_cmd l sql db_user db_name db_port psql_path db_password) None of
         Inl e \<Rightarrow> ?run = Inr (\<lparr>stderr = ''SSH Execution Failed'', exit_code = - 1, data = PyNone\<rparr>,
                              ''ssh_99'')
       | Inr r \<Rightarrow> (case ?run of
                     Inl raised \<Rightarrow> snd (snd r) = 0 \<and> strip (fst r) \<noteq> []
                                    \<and> json_loads l (strip (fst r)) = OtherError raised
                   | Inr returned_pair \<Rightarrow> snd returned_pair \<in> range sql_code)"
  proof (cases "pg_client (pg_full_cmd l sql db_user db_name db_port psql_path db_password) None")
    case (Inl e)
    then show ?thesis by (simp add: run_postgres_raised)
  next
    case answered: (Inr r)
    obtain raw_out raw_err ec where r: "r = (raw_out, raw_err, ec)" by (cases r)
    from answered r have sent:
      "pg_client (pg_full_cmd l sql db_user db_name db_port psql_path db_password) None
         = Inr (raw_out, raw_err, ec)" by simp
    have "case ?run of
            Inl raised \<Rightarrow> snd (snd r) = 0 \<and> strip (fst r) \<noteq> []
                           \<and> json_loads l (strip (fst r)) = OtherError raised
          | Inr returned_pair \<Rightarrow> snd returned_pair \<in> range sql_code"
    proof (cases ?run)
      case (Inl raised)
      from sent have "(?run = Inl raised)
          = (ec = 0 \<and> strip raw_out \<noteq> [] \<and> json_loads l (strip raw_out) = OtherError raised)"
        by (rule run_postgres_raises_iff)
      with Inl r show ?thesis by simp
    next
      case (Inr returned_pair)
      obtain res c where p: "returned_pair = (res, c)" by (cases returned_pair)
      have "(''pg_0'' :: string) = sql_code SqlSuccess" by simp
      then have zero: "(''pg_0'' :: string) \<in> range sql_code" by blast
      from Inr p have "?run = Inr (res, c)" by simp
      with sent have "c = (if ec = 0 then ''pg_0'' else parse_psql_error (strip raw_err) ec)"
        by (rule run_postgres_returned_code)
      with zero have "c \<in> range sql_code"
        by (simp add: parse_psql_error_in_range)
      with Inr p show ?thesis by simp
    qed
    with answered show ?thesis by simp
  qed
  show "''ssh_99'' \<notin> range shell_code \<union> range sql_code"
    using ssh_99_not_shell_code ssh_99_not_sql_code by auto
qed

theorem transport_exception_code_witness:
  "snd (run_ssh_command (\<lambda>c t. Inl ''Socket is closed'') ''uptime'' True ''root'' 60) = ''ssh_99''
   \<and> run_postgres_command_over_ssh lib0 (\<lambda>c t. Inl ''Socket is closed'') ''SELECT 1''
        ''postgres'' ''db1'' 5432 ''/usr/bin/psql'' None
       = Inr (\<lparr>stderr = ''SSH Execution Failed'', exit_code = - 1, data = PyNone\<rparr>, ''ssh_99'')
   \<and> snd (run_ssh_command (\<lambda>c t. Inr ([], ''boom'', 3)) ''uptime'' True ''root'' 60)
       \<in> range shell_code
   \<and> snd (projr (run_postgres_command_over_ssh lib0 (\<lambda>c t. Inr ([], ''boom'', 3)) ''SELECT 1''
        ''postgres'' ''db1'' 5432 ''/usr/bin/psql'' None)) \<in> range sql_code
   \<and> ''ssh_99'' \<notin> range shell_code \<union> range sql_code"
proof -
  have answered: "run_postgres_command_over_ssh lib0 (\<lambda>c t. Inr ([], ''boom'', 3)) ''SELECT 1''
        ''postgres'' ''db1'' 5432 ''/usr/bin/psql'' None
      = Inr (\<lparr>stderr = ''boom'', exit_code = 3, data = PyNone\<rparr>, ''pg_18'')"
    by (simp add: run_postgres_answered strip_def is_space_def)
      (simp add: parse_psql_error_def lower_def lower_char_def)
  note raised = transport_exception_code [where ssh_client = "\<lambda>c t. Inl ''Socket is closed''"
      and cmd = "''uptime''" and sudo = True and sudo_user = "''root''" and timeout = 60
      and pg_client = "\<lambda>c t. Inl ''Socket is closed''" and l = lib0 and sql = "''SELECT 1''"
      and db_user = "''postgres''" and db_name = "''db1''" and db_port = 5432
      and psql_path = "''/usr/bin/psql''" and db_password = None]
  note returns = transport_exception_code [where ssh_client = "\<lambda>c t. Inr ([], ''boom'', 3)"
      and cmd = "''uptime''" and sudo = True and sudo_user = "''root''" and timeout = 60
      and pg_client = "\<lambda>c t. Inr ([], ''boom'', 3)" and l = lib0 and sql = "''SELECT 1''"
      and db_user = "''postgres''" and db_name = "''db1''" and db_port = 5432
      and psql_path = "''/usr/bin/psql''" and db_password = None]
  from raised returns show ?thesis
    by (simp add: answered)
qed

text \<open>
  C8, at the failing input. In the run of the SQL variant over both hosts one
  host is counted FAIL and one PARTIAL, and the exit status of the SQL dispatcher is 0:
  its \<open>main\<close> returns nothing and the script does not pass a status to the system. The
  shell dispatcher, run over the same two hosts of which \<open>b\<close> cannot be reached,
  exits with 1.
\<close>

theorem pg_exit_status_ignores_failures:
  "pg_main world0 pg_args0 [1, 0]
     = Inr (Some \<lparr>success_count = 0, fail_count = 1, partial_count = 1\<rparr>)
   \<and> pg_exit_status (pg_main world0 pg_args0 [1, 0]) = 0
   \<and> ssh_exit_status (ssh_main world0 ssh_args0 [1, 0]) = 1"
proof (intro conjI)
  show "pg_main world0 pg_args0 [1, 0]
     = Inr (Some \<lparr>success_count = 0, fail_count = 1, partial_count = 1\<rparr>)"
    by (rule pg_main_both_hosts)
  show "pg_exit_status (pg_main world0 pg_args0 [1, 0]) = 0"
    unfolding pg_main_both_hosts by (simp add: pg_exit_status_def)
  show "ssh_exit_status (ssh_main world0 ssh_args0 [1, 0]) = 1"
    using ssh_exit_status_example by blast
qed

text \<open>
  C10, at the failing input. No exception is raised while
  the command is sent and read, and the remote exit code is 0, yet the runner does not
  return \<open>pg_0\<close>: \<open>json.loads\<close> raises on the integer of 5000 digits and the exception
  leaves the runner. With the same answer and the exit code 1 the runner returns the
  code \<open>pg_18\<close>.
\<close>

theorem pg_0_not_returned_on_exit_zero:
  "run_postgres_command_over_ssh lib0 (\<lambda>c t. Inr (big_stdout, ''NOTICE:  done'', 0))
      ''SELECT f FROM big_numbers'' ''postgres'' ''db1'' 5432 ''/usr/bin/psql'' None
     = Inl (''Exceeds the limit (4300 digits) for integer string conversion: value has ''
         @ ''5000 digits; use sys.set_int_max_str_digits() to increase the limit'')
   \<and> run_postgres_command_over_ssh lib0 (\<lambda>c t. Inr (big_stdout, ''NOTICE:  done'', 1))
      ''SELECT f FROM big_numbers'' ''postgres'' ''db1'' 5432 ''/usr/bin/psql'' None
     = Inr (\<lparr>stderr = ''NOTICE:  done'', exit_code = 1, data = PyNone\<rparr>, ''pg_18'')"
proof
  have err: "strip ''NOTICE:  done'' = ''NOTICE:  done''"
    by (simp add: strip_def is_space_def)
  show "run_postgres_command_over_ssh lib0 (\<lambda>c t. Inr (big_stdout, ''NOTICE:  done'', 0))
      ''SELECT f FROM big_numbers'' ''postgres'' ''db1'' 5432 ''/usr/bin/psql'' None
     = Inl (''Exceeds the limit (4300 digits) for integer string conversion: value has ''
         @ ''5000 digits; use sys.set_int_max_str_digits() to increase the limit'')"
    by (simp add: run_postgres_answered strip_big_stdout big_stdout_not_empty
          json_loads_big_stdout)
  show "run_postgres_command_over_ssh lib0 (\<lambda>c t. Inr (big_stdout, ''NOTICE:  done'', 1))
      ''SELECT f FROM big_numbers'' ''postgres'' ''db1'' 5432 ''/usr/bin/psql'' None
     = Inr (\<lparr>stderr = ''NOTICE:  done'', exit_code = 1, data = PyNone\<rparr>, ''pg_18'')"
    by (simp add: run_postgres_answered err)
      (simp add: parse_psql_error_def lower_def lower_char_def)
qed

end
